theory Spec2Isabelle
  imports Main "HOL-Library.Char_ord" "HOL-Library.List_Lexorder"
begin

section \<open>Data model of overlord/snapstate/target.go\<close>

text \<open>
  Errors are values. Each constructor stands for one \<^verbatim>\<open>return ..., err\<close> (or panic) of
  target.go; \<open>CollaboratorError\<close> carries an error handed back by a function that
  target.go calls but does not define.
\<close>

datatype error =
    NilPointerDereference
  | ErrLaneWithoutTransaction
  | ErrExpectedOneSnap
  | ErrInvalidInstanceName string
  | ErrRevisionAndCohort
  | ErrInvalidRevisionOpts string error
  | AlreadyInstalledError string
  | ErrUnsolicitedSnapAction string
  | ErrSnapNotRequested string
  | ErrCannotExtractComponents error
  | ErrComponentNotInResources string
  | ErrNotAComponent string string
  | ErrNotAComponentResource string
  | ErrInconsistentComponentType string string
  | ErrPathAndDownloadInfo
  | ErrUnexpectedSnapType string
  | CollaboratorError string

text \<open>\<^verbatim>\<open>snap.Revision\<close> wraps an int; \<^verbatim>\<open>Unset()\<close> holds of revision 0.\<close>

type_synonym Revision = int

definition Unset :: "Revision \<Rightarrow> bool" where
  "Unset r = (r = 0)"

type_synonym DownloadInfo = string
type_synonym DeviceContext = string
type_synonym ValidationSets = "string list"

record SideInfo =
  RealName :: string
  SnapID :: string
  si_Revision :: Revision
  si_Channel :: string

text \<open>The fields of \<^verbatim>\<open>RevisionOptions\<close> that target.go reads and writes.\<close>

record RevisionOptions =
  Channel :: string
  CohortKey :: string
  Revision :: Revision
  LeaveCohort :: bool
  ValidationSets :: "ValidationSets option"

record StoreSnap =
  InstanceName :: string
  Components :: "string list"
  RevOpts :: RevisionOptions
  SkipIfPresent :: bool

record storeInstallGoal =
  snaps :: "StoreSnap list"

record ComponentSideInfo =
  csi_Snap :: string
  csi_Component :: string
  csi_Revision :: Revision

record PathComponent =
  pc_SideInfo :: "ComponentSideInfo option"
  pc_Path :: string

record PathSnap =
  Path :: string
  ps_InstanceName :: string
  ps_RevOpts :: RevisionOptions
  ps_SideInfo :: "SideInfo option"
  ps_Components :: "PathComponent list"

record pathUpdateGoal =
  updates :: "PathSnap list"

text \<open>The fields of \<^verbatim>\<open>Flags\<close> and \<^verbatim>\<open>Options\<close> used by the functions below.\<close>

record Flags =
  Transaction :: string
  Lane :: int
  RequireTypeBase :: bool
  SkipConfigure :: bool

record Options =
  Flags :: Flags
  UserID :: int
  DeviceCtx :: "DeviceContext option"
  PrereqTracker :: "string list option"
  FromChange :: string
  Seed :: bool
  ExpectOneSnap :: bool

definition TransactionAllSnaps :: string where
  "TransactionAllSnaps = ''all-snaps''"

definition TransactionPerSnap :: string where
  "TransactionPerSnap = ''per-snap''"

record SnapState =
  Current :: Revision
  TrackingChannel :: string
  st_CohortKey :: string
  IgnoreValidation :: bool

record Info =
  i_InstanceName :: string
  i_SnapName :: string
  i_Revision :: Revision
  i_Type :: string
  i_Components :: "(string \<times> string) list"

record SnapSetup =
  su_Channel :: string
  su_CohortKey :: string
  su_DownloadInfo :: "DownloadInfo option"
  su_SnapPath :: string

record ComponentSetup =
  CompSideInfo :: "ComponentSideInfo option"
  CompType :: string
  CompPath :: string
  cs_DownloadInfo :: "DownloadInfo option"

record target =
  target_setup :: SnapSetup
  info :: Info
  snapst :: SnapState
  components :: "ComponentSetup list"

record SnapResourceResult =
  rr_Name :: string
  rr_Type :: string
  rr_Revision :: int
  rr_DownloadInfo :: DownloadInfo

record SnapActionResult =
  sar_Info :: Info
  sar_DownloadInfo :: DownloadInfo
  RedirectChannel :: string
  Resources :: "SnapResourceResult list"

subsection \<open>State, lanes and task sets\<close>

text \<open>
  Modelled from the spec: the state document's lane counter and \<^verbatim>\<open>state.NewLane\<close>, of
  package overlord/state, which target.go imports. The spec gives the document a
  counter \<open>lastLaneID\<close>, "monotonically increasing ... never reused", and the
  constructor \<^verbatim>\<open>state.NewLane() -> laneID\<close>.
\<close>

record State =
  lastLaneID :: int

definition NewLane :: "State \<Rightarrow> int \<times> State" where
  "NewLane st = (lastLaneID st + 1, st\<lparr>lastLaneID := lastLaneID st + 1\<rparr>)"

text \<open>
  Modelled from the spec: \<^verbatim>\<open>task.JoinLane(laneID)\<close> and its lifting to a task set, of
  package overlord/state. A task carries \<open>lanes\<close>, "ordered set of LaneIDs this task
  belongs to"; joining adds the lane to that ordered set (once).
\<close>

record Task =
  kind :: string
  lanes :: "int list"

type_synonym TaskSet = "Task list"

definition Task_JoinLane :: "int \<Rightarrow> Task \<Rightarrow> Task" where
  "Task_JoinLane lane t =
     (if lane \<in> set (lanes t) then t else t\<lparr>lanes := lanes t @ [lane]\<rparr>)"

definition JoinLane :: "TaskSet \<Rightarrow> int \<Rightarrow> TaskSet" where
  "JoinLane ts lane = map (Task_JoinLane lane) ts"

subsection \<open>Functions that target.go calls and does not define\<close>

text \<open>
  The collaborators of target.go (packages snap, store, snapasserts and the rest of
  snapstate) are parameters of the model: a record of functions, each returning an
  error value where the Go function returns an error. \<open>setups\<close> stands for
  \<^verbatim>\<open>target.setups\<close>, whose result comes from \<^verbatim>\<open>userIDForSnap\<close>,
  \<^verbatim>\<open>earlyChecks\<close> and \<^verbatim>\<open>defaultProviderContentAttrs\<close>.
\<close>

record collaborators =
  All' :: "State \<Rightarrow> error + (string \<rightharpoonup> SnapState)"
  IsInstalled :: "SnapState \<Rightarrow> bool"
  ValidateInstanceName :: "string \<Rightarrow> string option"
  resolveChannel ::
    "RevisionOptions \<Rightarrow> string \<Rightarrow> string \<Rightarrow> DeviceContext option \<Rightarrow> error + RevisionOptions"
  initializeValidationSets :: "RevisionOptions \<Rightarrow> State \<Rightarrow> Options \<Rightarrow> error + RevisionOptions"
  sendInstallActions :: "State \<Rightarrow> StoreSnap list \<Rightarrow> Options \<Rightarrow> error + SnapActionResult list"
  ResourceToComponentType :: "string \<Rightarrow> string option"
  checkSnapAgainstValidationSets ::
    "Info \<Rightarrow> ComponentSetup list \<Rightarrow> string \<Rightarrow> ValidationSets option \<Rightarrow> error option"
  DeviceCtxFromState :: "State \<Rightarrow> DeviceContext option \<Rightarrow> error + DeviceContext"
  DevicePastSeeding :: "State \<Rightarrow> DeviceContext option \<Rightarrow> error + DeviceContext"
  checkDiskSpace :: "State \<Rightarrow> string \<Rightarrow> Info list \<Rightarrow> int \<Rightarrow> error option"
  setups :: "State \<Rightarrow> target \<Rightarrow> Options \<Rightarrow> error + (SnapSetup \<times> ComponentSetup list)"
  doInstall ::
    "State \<Rightarrow> SnapState \<Rightarrow> SnapSetup \<Rightarrow> ComponentSetup list \<Rightarrow> bool \<Rightarrow> string
      \<Rightarrow> DeviceContext option \<Rightarrow> error + TaskSet"

section \<open>Goal construction\<close>

text \<open>
  \<^verbatim>\<open>StoreInstallGoal\<close>: the loop over \<open>snaps\<close> with the map \<open>seen\<close> and the slice
  \<open>unique\<close>; a snap is skipped when its name is a key of \<open>seen\<close>.
\<close>

fun StoreInstallGoal_loop ::
  "(string \<rightharpoonup> bool) \<Rightarrow> StoreSnap list \<Rightarrow> StoreSnap list \<Rightarrow> StoreSnap list" where
  "StoreInstallGoal_loop seen unique [] = unique"
| "StoreInstallGoal_loop seen unique (sn # rest) =
     (case seen (InstanceName sn) of
        Some _ \<Rightarrow> StoreInstallGoal_loop seen unique rest
      | None \<Rightarrow> StoreInstallGoal_loop (seen(InstanceName sn \<mapsto> True)) (unique @ [sn]) rest)"

definition StoreInstallGoal :: "StoreSnap list \<Rightarrow> storeInstallGoal" where
  "StoreInstallGoal sns = \<lparr>snaps = StoreInstallGoal_loop Map.empty [] sns\<rparr>"

text \<open>
  \<^verbatim>\<open>PathUpdateGoal\<close>: an empty instance name is first replaced by
  \<^verbatim>\<open>snap.SideInfo.RealName\<close>; \<open>SideInfo\<close> is a pointer, and reading through a nil
  one panics. A snap is skipped when \<open>seen\<close> maps its name to true.
\<close>

fun PathUpdateGoal_loop ::
  "(string \<rightharpoonup> bool) \<Rightarrow> PathSnap list \<Rightarrow> PathSnap list \<Rightarrow> error + PathSnap list" where
  "PathUpdateGoal_loop seen filtered [] = Inr filtered"
| "PathUpdateGoal_loop seen filtered (sn # rest) =
     (if ps_InstanceName sn = []
      then (case ps_SideInfo sn of
              None \<Rightarrow> Inl NilPointerDereference
            | Some si \<Rightarrow>
                (let sn' = sn\<lparr>ps_InstanceName := RealName si\<rparr> in
                 if seen (ps_InstanceName sn') = Some True
                 then PathUpdateGoal_loop seen filtered rest
                 else PathUpdateGoal_loop (seen(ps_InstanceName sn' \<mapsto> True)) (filtered @ [sn']) rest))
      else if seen (ps_InstanceName sn) = Some True
           then PathUpdateGoal_loop seen filtered rest
           else PathUpdateGoal_loop (seen(ps_InstanceName sn \<mapsto> True)) (filtered @ [sn]) rest)"

definition PathUpdateGoal :: "PathSnap list \<Rightarrow> error + pathUpdateGoal" where
  "PathUpdateGoal sns =
     (case PathUpdateGoal_loop Map.empty [] sns of
        Inl e \<Rightarrow> Inl e
      | Inr filtered \<Rightarrow> Inr \<lparr>updates = filtered\<rparr>)"

text \<open>
  The claim's wording, as a definition of its own: keep the element at position \<open>i\<close>
  exactly when no earlier position holds the same key, in the order of the input.
\<close>

definition first_occurrences :: "('a \<Rightarrow> 'k) \<Rightarrow> 'a list \<Rightarrow> 'a list" where
  "first_occurrences key xs =
     map (\<lambda>i. xs ! i) (filter (\<lambda>i. key (xs ! i) \<notin> key ` set (take i xs)) [0..<length xs])"

text \<open>The path snap as the loop sees it once the empty name has been filled in.\<close>

definition effectiveName :: "PathSnap \<Rightarrow> PathSnap" where
  "effectiveName sn =
     (if ps_InstanceName sn = []
      then (case ps_SideInfo sn of None \<Rightarrow> sn | Some si \<Rightarrow> sn\<lparr>ps_InstanceName := RealName si\<rparr>)
      else sn)"

section \<open>Store install goal: validation and store request\<close>

text \<open>\<^verbatim>\<open>storeInstallGoal.snap\<close>: the first snap of the goal with the given name.\<close>

definition snap :: "storeInstallGoal \<Rightarrow> string \<Rightarrow> StoreSnap option" where
  "snap s name = find (\<lambda>sn. InstanceName sn = name) (snaps s)"

text \<open>\<^verbatim>\<open>validateRevisionOpts\<close> takes a pointer and may clear the cohort key.\<close>

definition validateRevisionOpts :: "RevisionOptions \<Rightarrow> error + RevisionOptions" where
  "validateRevisionOpts opts =
     (if CohortKey opts \<noteq> [] \<and> \<not> Unset (Revision opts)
      then Inl ErrRevisionAndCohort
      else if LeaveCohort opts then Inr (opts\<lparr>CohortKey := []\<rparr>)
      else Inr opts)"

text \<open>
  \<^verbatim>\<open>validateAndPrune\<close>: the loop body, in the order of the source. \<open>sn\<close> is the loop's
  copy of the element; the copy, with its revision options completed, is what is
  appended to \<open>uninstalled\<close>.
\<close>

definition installed :: "collaborators \<Rightarrow> (string \<rightharpoonup> SnapState) \<Rightarrow> StoreSnap \<Rightarrow> bool" where
  "installed c installedSnaps sn =
     (case installedSnaps (InstanceName sn) of
        None \<Rightarrow> False
      | Some sst \<Rightarrow> IsInstalled c sst)"

fun validateAndPrune_loop ::
  "collaborators \<Rightarrow> State \<Rightarrow> (string \<rightharpoonup> SnapState) \<Rightarrow> Options \<Rightarrow> StoreSnap list \<Rightarrow> StoreSnap list
    \<Rightarrow> error + StoreSnap list" where
  "validateAndPrune_loop c st installedSnaps opts uninstalled [] = Inr uninstalled"
| "validateAndPrune_loop c st installedSnaps opts uninstalled (sn # rest) =
     (case ValidateInstanceName c (InstanceName sn) of
        Some msg \<Rightarrow> Inl (ErrInvalidInstanceName msg)
      | None \<Rightarrow>
     (case validateRevisionOpts (RevOpts sn) of
        Inl e \<Rightarrow> Inl (ErrInvalidRevisionOpts (InstanceName sn) e)
      | Inr ro \<Rightarrow>
     (if installed c installedSnaps sn
      then (if \<not> SkipIfPresent sn
            then Inl (AlreadyInstalledError (InstanceName sn))
            else validateAndPrune_loop c st installedSnaps opts uninstalled rest)
      else
     (case resolveChannel c
             (if Channel ro = [] \<and> Unset (Revision ro) then ro\<lparr>Channel := ''stable''\<rparr> else ro)
             (InstanceName sn) ''stable'' (DeviceCtx opts) of
        Inl e \<Rightarrow> Inl e
      | Inr ro' \<Rightarrow>
     (case initializeValidationSets c ro' st opts of
        Inl e \<Rightarrow> Inl e
      | Inr ro'' \<Rightarrow>
          validateAndPrune_loop c st installedSnaps opts
            (uninstalled @ [sn\<lparr>RevOpts := ro''\<rparr>]) rest)))))"

definition validateAndPrune ::
  "collaborators \<Rightarrow> storeInstallGoal \<Rightarrow> State \<Rightarrow> (string \<rightharpoonup> SnapState) \<Rightarrow> Options
    \<Rightarrow> error + storeInstallGoal" where
  "validateAndPrune c s st installedSnaps opts =
     (case validateAndPrune_loop c st installedSnaps opts [] (snaps s) of
        Inl e \<Rightarrow> Inl e
      | Inr uninstalled \<Rightarrow> Inr (s\<lparr>snaps := uninstalled\<rparr>))"

text \<open>\<^verbatim>\<open>componentSetupFromResource\<close> and \<^verbatim>\<open>componentTargetsFromActionResult\<close>.\<close>

definition componentSetupFromResource ::
  "collaborators \<Rightarrow> string \<Rightarrow> SnapResourceResult \<Rightarrow> Info \<Rightarrow> error + ComponentSetup" where
  "componentSetupFromResource c name sar si =
     (case map_of (i_Components si) name of
        None \<Rightarrow> Inl (ErrNotAComponent name (i_SnapName si))
      | Some comp_type \<Rightarrow>
     (case ResourceToComponentType c (rr_Type sar) of
        None \<Rightarrow> Inl (ErrNotAComponentResource (rr_Type sar))
      | Some typ \<Rightarrow>
          if typ \<noteq> comp_type then Inl (ErrInconsistentComponentType comp_type typ)
          else Inr \<lparr>CompSideInfo =
                      Some \<lparr>csi_Snap = i_SnapName si, csi_Component = name,
                            csi_Revision = rr_Revision sar\<rparr>,
                    CompType = comp_type, CompPath = [],
                    cs_DownloadInfo = Some (rr_DownloadInfo sar)\<rparr>))"

fun componentTargets_loop ::
  "collaborators \<Rightarrow> string \<Rightarrow> SnapActionResult \<Rightarrow> (string \<rightharpoonup> SnapResourceResult)
    \<Rightarrow> ComponentSetup list \<Rightarrow> string list \<Rightarrow> error + ComponentSetup list" where
  "componentTargets_loop c action sar mapping setups_acc [] = Inr setups_acc"
| "componentTargets_loop c action sar mapping setups_acc (cname # rest) =
     (case mapping cname of
        None \<Rightarrow>
          if action = ''refresh''
          then componentTargets_loop c action sar mapping setups_acc rest
          else Inl (ErrComponentNotInResources cname)
      | Some res \<Rightarrow>
          (case componentSetupFromResource c cname res (sar_Info sar) of
             Inl e \<Rightarrow> Inl e
           | Inr su \<Rightarrow> componentTargets_loop c action sar mapping (setups_acc @ [su]) rest))"

definition componentTargetsFromActionResult ::
  "collaborators \<Rightarrow> string \<Rightarrow> SnapActionResult \<Rightarrow> string list \<Rightarrow> error + ComponentSetup list" where
  "componentTargetsFromActionResult c action sar requested =
     componentTargets_loop c action sar
       (fold (\<lambda>res m. m(rr_Name res \<mapsto> res)) (Resources sar) Map.empty) [] requested"

text \<open>\<^verbatim>\<open>storeInstallGoal.toInstall\<close>: the two loops after the store has answered.\<close>

fun toInstall_results ::
  "collaborators \<Rightarrow> storeInstallGoal \<Rightarrow> (string \<rightharpoonup> SnapState) \<Rightarrow> target list
    \<Rightarrow> SnapActionResult list \<Rightarrow> error + target list" where
  "toInstall_results c s allSnaps installs [] = Inr installs"
| "toInstall_results c s allSnaps installs (r # rest) =
     (case snap s (i_InstanceName (sar_Info r)) of
        None \<Rightarrow> Inl (ErrUnsolicitedSnapAction (i_InstanceName (sar_Info r)))
      | Some sn \<Rightarrow>
     (case componentTargetsFromActionResult c ''install'' r (Components sn) of
        Inl e \<Rightarrow> Inl (ErrCannotExtractComponents e)
      | Inr comps \<Rightarrow>
          toInstall_results c s allSnaps
            (installs @
              [\<lparr>target_setup =
                  \<lparr>su_Channel =
                     (if RedirectChannel r \<noteq> [] then RedirectChannel r
                      else if Channel (RevOpts sn) \<noteq> [] then Channel (RevOpts sn)
                      else ''stable''),
                   su_CohortKey = CohortKey (RevOpts sn),
                   su_DownloadInfo = Some (sar_DownloadInfo r),
                   su_SnapPath = []\<rparr>,
                info = sar_Info r,
                snapst =
                  (case allSnaps (i_InstanceName (sar_Info r)) of
                     Some sst \<Rightarrow> sst
                   | None \<Rightarrow> \<lparr>Current = 0, TrackingChannel = [], st_CohortKey = [],
                               IgnoreValidation = False\<rparr>),
                components = comps\<rparr>])
            rest))"

fun toInstall_check ::
  "collaborators \<Rightarrow> storeInstallGoal \<Rightarrow> target list \<Rightarrow> error option" where
  "toInstall_check c s [] = None"
| "toInstall_check c s (t # rest) =
     (case snap s (i_InstanceName (info t)) of
        None \<Rightarrow> Some (ErrSnapNotRequested (i_InstanceName (info t)))
      | Some sn \<Rightarrow>
          (case checkSnapAgainstValidationSets c (info t) (components t) ''install''
                  (ValidationSets (RevOpts sn)) of
             Some e \<Rightarrow> Some e
           | None \<Rightarrow> toInstall_check c s rest))"

text \<open>
  \<^verbatim>\<open>storeInstallGoal.toInstall\<close>. Beside its result the model returns the calls of
  \<^verbatim>\<open>sendInstallActions\<close> it made, each with the snaps it was given: that call is
  where the store is asked.
\<close>

definition toInstall ::
  "collaborators \<Rightarrow> storeInstallGoal \<Rightarrow> State \<Rightarrow> Options
    \<Rightarrow> (error + target list) \<times> StoreSnap list list" where
  "toInstall c s st opts =
     (if ExpectOneSnap opts \<and> length (snaps s) \<noteq> 1 then (Inl ErrExpectedOneSnap, [])
      else
     (case All' c st of
        Inl e \<Rightarrow> (Inl e, [])
      | Inr allSnaps \<Rightarrow>
     (case validateAndPrune c s st allSnaps opts of
        Inl e \<Rightarrow> (Inl e, [])
      | Inr s' \<Rightarrow>
     (case sendInstallActions c st (snaps s') opts of
        Inl e \<Rightarrow> (Inl e, [snaps s'])
      | Inr results \<Rightarrow>
     (case toInstall_results c s' allSnaps [] results of
        Inl e \<Rightarrow> (Inl e, [snaps s'])
      | Inr installs \<Rightarrow>
     (case toInstall_check c s' installs of
        Some e \<Rightarrow> (Inl e, [snaps s'])
      | None \<Rightarrow> (Inr installs, [snaps s'])))))))"

section \<open>InstallWithGoal and its lanes\<close>

definition setDefaultLane :: "Options \<Rightarrow> State \<Rightarrow> (error + Options) \<times> State" where
  "setDefaultLane opts st =
     (if Transaction (Flags opts) \<noteq> TransactionAllSnaps \<and> Lane (Flags opts) \<noteq> 0
      then (Inl ErrLaneWithoutTransaction, st)
      else if Transaction (Flags opts) = TransactionAllSnaps \<and> Lane (Flags opts) = 0
      then (let (lane, st') = NewLane st
            in (Inr (opts\<lparr>Flags := (Flags opts)\<lparr>Lane := lane\<rparr>\<rparr>), st'))
      else (Inr opts, st))"

definition generateLane :: "State \<Rightarrow> Options \<Rightarrow> int \<times> State" where
  "generateLane st opts =
     (if Transaction (Flags opts) = TransactionAllSnaps then (Lane (Flags opts), st)
      else if Transaction (Flags opts) = TransactionPerSnap then NewLane st
      else (0, st))"

definition setDefaultSnapstateOptions ::
  "collaborators \<Rightarrow> State \<Rightarrow> Options \<Rightarrow> error + Options" where
  "setDefaultSnapstateOptions c st opts =
     (case (if Seed opts then DeviceCtxFromState c st (DeviceCtx opts)
            else DevicePastSeeding c st (DeviceCtx opts)) of
        Inl e \<Rightarrow> Inl e
      | Inr dev \<Rightarrow>
          Inr (opts\<lparr>DeviceCtx := Some dev,
                    PrereqTracker :=
                      (case PrereqTracker opts of None \<Rightarrow> Some [] | Some tr \<Rightarrow> Some tr)\<rparr>))"

text \<open>\<^verbatim>\<open>sortComponentsOnTargets\<close>: the components of each target, sorted by name.\<close>

definition ComponentName :: "ComponentSetup \<Rightarrow> string" where
  "ComponentName cs = (case CompSideInfo cs of None \<Rightarrow> [] | Some csi \<Rightarrow> csi_Component csi)"


text \<open>
  \<^verbatim>\<open>sort.Slice\<close> calls the comparison only on a slice of two or more elements; the
  comparison reads \<^verbatim>\<open>CompSideInfo\<close> through its pointer. \<^verbatim>\<open>sort.Slice\<close> is not
  stable: for equal names the model fixes the order a stable sort gives, and no
  theorem below depends on the order among equal names.
\<close>

definition sortComponents :: "ComponentSetup list \<Rightarrow> error + ComponentSetup list" where
  "sortComponents cs =
     (if 2 \<le> length cs \<and> (\<exists>x \<in> set cs. CompSideInfo x = None) then Inl NilPointerDereference
      else Inr (sort_key ComponentName cs))"

fun sortComponentsOnTargets :: "target list \<Rightarrow> error + target list" where
  "sortComponentsOnTargets [] = Inr []"
| "sortComponentsOnTargets (t # rest) =
     (case sortComponents (components t) of
        Inl e \<Rightarrow> Inl e
      | Inr cs \<Rightarrow>
          (case sortComponentsOnTargets rest of
             Inl e \<Rightarrow> Inl e
           | Inr rest' \<Rightarrow> Inr (t\<lparr>components := cs\<rparr> # rest')))"

definition TypeBase :: string where
  "TypeBase = ''base''"

definition TypeOS :: string where
  "TypeOS = ''os''"

text \<open>
  The loop of \<^verbatim>\<open>InstallWithGoal\<close> over the targets. \<open>trackerAdd\<close> is
  \<^verbatim>\<open>opts.PrereqTracker.Add(t.info)\<close>.
\<close>

definition trackerAdd :: "Options \<Rightarrow> Info \<Rightarrow> Options" where
  "trackerAdd opts i =
     opts\<lparr>PrereqTracker := map_option (\<lambda>tr. tr @ [i_InstanceName i]) (PrereqTracker opts)\<rparr>"

fun InstallWithGoal_loop ::
  "collaborators \<Rightarrow> Options \<Rightarrow> State \<Rightarrow> Info list \<Rightarrow> TaskSet list \<Rightarrow> target list
    \<Rightarrow> (error + Info list \<times> TaskSet list) \<times> State" where
  "InstallWithGoal_loop c opts st infos tasksets [] = (Inr (infos, tasksets), st)"
| "InstallWithGoal_loop c opts st infos tasksets (t # rest) =
     (if su_SnapPath (target_setup t) \<noteq> [] \<and> su_DownloadInfo (target_setup t) \<noteq> None
      then (Inl ErrPathAndDownloadInfo, st)
      else if RequireTypeBase (Flags opts) \<and> i_Type (info t) \<noteq> TypeBase \<and> i_Type (info t) \<noteq> TypeOS
      then (Inl (ErrUnexpectedSnapType (i_Type (info t))), st)
      else
     (case setups c st t (trackerAdd opts (info t)) of
        Inl e \<Rightarrow> (Inl e, st)
      | Inr (snapsup, compsups) \<Rightarrow>
     (case doInstall c st (snapst t) snapsup compsups (SkipConfigure (Flags opts))
             (FromChange opts) (DeviceCtx opts) of
        Inl e \<Rightarrow> (Inl e, st)
      | Inr ts \<Rightarrow>
          InstallWithGoal_loop c (trackerAdd opts (info t))
            (snd (generateLane st (trackerAdd opts (info t))))
            (infos @ [info t])
            (tasksets @ [JoinLane ts (fst (generateLane st (trackerAdd opts (info t))))])
            rest)))"

text \<open>
  \<^verbatim>\<open>InstallWithGoal\<close>. The goal is the interface's one method, \<^verbatim>\<open>toInstall\<close>, a
  function of the state and the options. The result is paired with the state as the
  call leaves it.
\<close>

definition InstallWithGoal ::
  "collaborators \<Rightarrow> State \<Rightarrow> (State \<Rightarrow> Options \<Rightarrow> error + target list) \<Rightarrow> Options
    \<Rightarrow> (error + Info list \<times> TaskSet list) \<times> State" where
  "InstallWithGoal c st goal opts0 =
     (case setDefaultLane opts0 st of
        (Inl e, st1) \<Rightarrow> (Inl e, st1)
      | (Inr opts1, st1) \<Rightarrow>
     (case setDefaultSnapstateOptions c st1 opts1 of
        Inl e \<Rightarrow> (Inl e, st1)
      | Inr opts \<Rightarrow>
     (case goal st1 opts of
        Inl e \<Rightarrow> (Inl e, st1)
      | Inr targets \<Rightarrow>
          if ExpectOneSnap opts \<and> length targets \<noteq> 1 then (Inl ErrExpectedOneSnap, st1)
          else
     (case sortComponentsOnTargets targets of
        Inl e \<Rightarrow> (Inl e, st1)
      | Inr targets' \<Rightarrow>
     (case checkDiskSpace c st1 ''install'' (map info targets') (UserID opts) of
        Some e \<Rightarrow> (Inl e, st1)
      | None \<Rightarrow> InstallWithGoal_loop c opts st1 [] [] targets')))))"

section \<open>The link step of the backend\<close>

text \<open>
  Modelled from the spec: the directories of package dirs that the link step writes to.
  The package is not among the sources; the tests of
  overlord/snapstate/backend (kept with target.go, from line 1462 on) name these
  directories when they look for what \<^verbatim>\<open>LinkSnap\<close> left behind. A path is a directory
  and an entry name in it; the mount, data and components directories are per snap.
\<close>

datatype dir =
    SnapBinariesDir
  | SnapDesktopFilesDir
  | SnapDesktopIconsDir
  | SnapServicesDir
  | SnapUserServicesDir
  | SnapDBusSystemServicesDir
  | SnapDBusSessionServicesDir
  | SnapMountDir string
  | SnapDataDir string
  | SnapComponentsDir string Revision
  | InhibitDir

type_synonym path = "dir \<times> string"

text \<open>
  Modelled from the spec: what the tests can observe of a path, a regular file with
  its content, a symbolic link with its target, or a directory.
\<close>

datatype node = File string | Symlink string | Directory

type_synonym filesystem = "path \<rightharpoonup> node"

text \<open>
  Modelled from the spec: the part of \<^verbatim>\<open>snap.AppInfo\<close> (package snap) that decides
  which wrappers an application gets: its name, its daemon type (empty for a
  command), the daemon scope, and the D-Bus names it is activated on, each with its bus.
\<close>

record App =
  app_Name :: string
  Daemon :: string
  DaemonScope :: string
  ActivatesOn :: "(string \<times> string) list"

text \<open>
  Modelled from the spec: the part of \<^verbatim>\<open>snap.Info\<close> the link step reads beside the
  fields target.go uses: the applications, the desktop files and icons found under
  meta/gui of the snap, and, for the snapd snap, the unit files it ships (source
  directory, name, content).
\<close>

record LinkInfo = Info +
  Apps :: "App list"
  DesktopFiles :: "(string \<times> string) list"
  Icons :: "(string \<times> string) list"
  SnapdUnits :: "(string \<times> string \<times> string) list"

text \<open>
  Modelled from the spec: \<^verbatim>\<open>backend.LinkContext\<close>, with the fields the tests set. The
  state unlocker is a function in the code; here it is present or nil. The spec
  calls it "a function supplied by the caller context, never nil when the handler is
  invoked by the engine".
\<close>

record LinkContext =
  FirstInstall :: bool
  IsUndo :: bool
  QuotaGroup :: "string option"
  RunInhibitHint :: string
  StateUnlocker :: "unit option"
  RequireMountedSnapdSnap :: bool
  HasOtherInstances :: bool
  SkipBinaries :: bool

text \<open>
  Modelled from the spec: what a call of the backend can change or read outside its
  arguments: the files, whether the system is classic, and how often the state
  unlocker and the relock function it returns have been called.
\<close>

record System =
  Files :: filesystem
  OnClassic :: bool
  unlockerCalled :: nat
  relockCalled :: nat

text \<open>
  Modelled from the spec: the errors of the link step that the tests match,
  "LinkContext.StateUnlocker cannot be nil" (lines 2734-2742), "cannot link snap ...
  with unset revision" (line 2006), "file exists" (line 2644), and a data directory
  that is no directory.
\<close>

datatype link_error =
    ErrNilStateUnlocker
  | ErrNilStateUnlockerWithHint
  | ErrUnsetRevision string
  | ErrFileExists path
  | ErrNotADirectory path

text \<open>
  Modelled from the spec: \<^verbatim>\<open>snap.TypeSnapd\<close> of package snap.
\<close>

definition TypeSnapd :: string where
  "TypeSnapd = ''snapd''"

text \<open>
  Modelled from the spec: \<^verbatim>\<open>Revision.String\<close> of package snap: the decimal digits of
  the revision, with the prefix x for a local (negative) revision. The target of a
  component's link ends in it (line 2623).
\<close>

fun natString :: "nat \<Rightarrow> string" where
  "natString n =
     (if n < 10 then [''0123456789'' ! n]
      else natString (n div 10) @ [''0123456789'' ! (n mod 10)])"

declare natString.simps [simp del]

definition revString :: "Revision \<Rightarrow> string" where
  "revString r = (if r < 0 then CHR ''x'' # natString (nat (- r)) else natString (nat r))"

text \<open>
  Modelled from the spec: writing and removing a list of files, in order.
\<close>

definition write_files :: "(path \<times> node) list \<Rightarrow> filesystem \<Rightarrow> filesystem" where
  "write_files ws fs = fold (\<lambda>(p, n) m. m(p \<mapsto> n)) ws fs"

definition remove_files :: "path list \<Rightarrow> filesystem \<Rightarrow> filesystem" where
  "remove_files ps fs = fold (\<lambda>p m. m(p := None)) ps fs"

text \<open>
  Modelled from the spec: \<^verbatim>\<open>snap.JoinSnapApp\<close>: the name of the wrapper of an
  application, the instance name alone when the application is named like the snap.
\<close>

definition JoinSnapApp :: "'a LinkInfo_scheme \<Rightarrow> string \<Rightarrow> string" where
  "JoinSnapApp i app =
     (if app = i_SnapName i then i_InstanceName i else i_InstanceName i @ ''.'' @ app)"

text \<open>
  Modelled from the spec: the wrappers package wrappers generates for a snap that is
  not the snapd snap, as the tests count them: one link in the binaries directory
  for every application that is no daemon, one unit file for every daemon (in the
  user directory for a user daemon), one D-Bus service file for every name an
  application is activated on, the desktop files and the icons. The content of a
  service unit depends on the link context (\<^verbatim>\<open>RequireMountedSnapdSnap\<close> and
  \<^verbatim>\<open>QuotaGroup\<close>, lines 2483-2553); the spec leaves the generation of the contents
  to an external collaborator, and only this dependence is kept.
\<close>

definition binaries :: "'a LinkInfo_scheme \<Rightarrow> (path \<times> node) list" where
  "binaries i =
     map (\<lambda>a. ((SnapBinariesDir, JoinSnapApp i (app_Name a)), Symlink ''/usr/bin/snap''))
       (filter (\<lambda>a. Daemon a = []) (Apps i))"

definition serviceUnit :: "'a LinkInfo_scheme \<Rightarrow> App \<Rightarrow> LinkContext \<Rightarrow> string" where
  "serviceUnit i a ctx =
     ''[Unit] Description=Service for snap application '' @ JoinSnapApp i (app_Name a)
     @ (if RequireMountedSnapdSnap ctx
        then '' Wants=usr-lib-snapd.mount After=usr-lib-snapd.mount'' else [])
     @ '' [Service] ExecStart=/usr/bin/snap run '' @ JoinSnapApp i (app_Name a)
     @ (case QuotaGroup ctx of None \<Rightarrow> [] | Some g \<Rightarrow> '' Slice=snap.'' @ g @ ''.slice'')"

definition serviceUnitPath :: "'a LinkInfo_scheme \<Rightarrow> App \<Rightarrow> path" where
  "serviceUnitPath i a =
     (if DaemonScope a = ''user'' then SnapUserServicesDir else SnapServicesDir,
      ''snap.'' @ i_InstanceName i @ ''.'' @ app_Name a @ ''.service'')"

definition services :: "'a LinkInfo_scheme \<Rightarrow> LinkContext \<Rightarrow> (path \<times> node) list" where
  "services i ctx =
     map (\<lambda>a. (serviceUnitPath i a, File (serviceUnit i a ctx)))
       (filter (\<lambda>a. Daemon a \<noteq> []) (Apps i))"

definition dbusActivationFiles :: "'a LinkInfo_scheme \<Rightarrow> (path \<times> node) list" where
  "dbusActivationFiles i =
     concat (map (\<lambda>a. map (\<lambda>slot.
                   ((if fst slot = ''system'' then SnapDBusSystemServicesDir
                     else SnapDBusSessionServicesDir, snd slot @ ''.service''),
                    File (''[D-BUS Service] Name='' @ snd slot))) (ActivatesOn a)) (Apps i))"

definition desktopFiles :: "'a LinkInfo_scheme \<Rightarrow> (path \<times> node) list" where
  "desktopFiles i =
     map (\<lambda>f. ((SnapDesktopFilesDir, i_InstanceName i @ ''_'' @ fst f), File (snd f)))
       (DesktopFiles i)"

definition icons :: "'a LinkInfo_scheme \<Rightarrow> (path \<times> node) list" where
  "icons i = map (\<lambda>f. ((SnapDesktopIconsDir, fst f), File (snd f))) (Icons i)"

text \<open>
  Modelled from the spec: the units of the snapd snap (lines 2009-2087): each unit
  file the snap ships under a known systemd or D-Bus directory is written to the
  matching directory of the system, and a mount unit for the snap's tools is added.
  Units under other directories are ignored. The contents are taken as the snap
  information gives them.
\<close>

definition snapdUnitDir :: "string \<Rightarrow> dir option" where
  "snapdUnitDir src =
     (if src = ''lib/systemd/system'' then Some SnapServicesDir
      else if src = ''usr/lib/systemd/user'' then Some SnapUserServicesDir
      else if src = ''usr/share/dbus-1/services'' then Some SnapDBusSessionServicesDir
      else None)"

definition snapdUnits :: "'a LinkInfo_scheme \<Rightarrow> (path \<times> node) list" where
  "snapdUnits i =
     concat (map (\<lambda>u. case snapdUnitDir (fst u) of
                         None \<Rightarrow> []
                       | Some d \<Rightarrow> [((d, fst (snd u)), File (snd (snd u)))]) (SnapdUnits i))
     @ [((SnapServicesDir, ''usr-lib-snapd.mount''),
         File (''[Mount] What=/snap/snapd/'' @ revString (i_Revision i)
               @ ''/usr/lib/snapd Where=/usr/lib/snapd''))]"

text \<open>
  Modelled from the spec: \<^verbatim>\<open>generateWrappers\<close> of the backend. The snapd snap gets
  its units, and only on a core system; every other snap gets the wrappers of its
  applications.
\<close>

definition generated :: "bool \<Rightarrow> 'a LinkInfo_scheme \<Rightarrow> LinkContext \<Rightarrow> (path \<times> node) list" where
  "generated classic i ctx =
     (if i_Type i = TypeSnapd then (if classic then [] else snapdUnits i)
      else binaries i @ services i ctx @ dbusActivationFiles i @ desktopFiles i @ icons i)"

definition generateWrappers ::
  "bool \<Rightarrow> 'a LinkInfo_scheme \<Rightarrow> LinkContext \<Rightarrow> filesystem \<Rightarrow> filesystem" where
  "generateWrappers classic i ctx fs = write_files (generated classic i ctx) fs"

text \<open>
  Modelled from the spec: \<^verbatim>\<open>removeGeneratedWrappers\<close> of the backend. The units of
  the snapd snap are removed only when the link context says this was its first
  installation (lines 2291-2307 and 2432-2481); for any other snap the service and
  D-Bus files are removed, and the binaries, desktop files and icons too unless the
  link context sets \<^verbatim>\<open>SkipBinaries\<close> (lines 1676-1732). Removing a file that does
  not exist is no error.
\<close>

definition removed :: "bool \<Rightarrow> 'a LinkInfo_scheme \<Rightarrow> LinkContext \<Rightarrow> path list" where
  "removed classic i ctx =
     (if i_Type i = TypeSnapd
      then (if FirstInstall ctx \<and> \<not> classic then map fst (snapdUnits i) else [])
      else (if SkipBinaries ctx then []
            else map fst (binaries i) @ map fst (desktopFiles i) @ map fst (icons i))
           @ map fst (services i ctx) @ map fst (dbusActivationFiles i))"

definition removeGeneratedWrappers ::
  "bool \<Rightarrow> 'a LinkInfo_scheme \<Rightarrow> LinkContext \<Rightarrow> filesystem \<Rightarrow> filesystem" where
  "removeGeneratedWrappers classic i ctx fs = remove_files (removed classic i ctx) fs"

text \<open>
  Modelled from the spec: the data directory of the revision and the two
  \<open>current\<close> links, in the data and in the mount directory of the snap
  (lines 1747-1758).
\<close>

definition dataDir :: "'a LinkInfo_scheme \<Rightarrow> path" where
  "dataDir i = (SnapDataDir (i_InstanceName i), revString (i_Revision i))"

definition currentDataSymlink :: "'a LinkInfo_scheme \<Rightarrow> path" where
  "currentDataSymlink i = (SnapDataDir (i_InstanceName i), ''current'')"

definition currentActiveSymlink :: "'a LinkInfo_scheme \<Rightarrow> path" where
  "currentActiveSymlink i = (SnapMountDir (i_InstanceName i), ''current'')"

text \<open>
  Modelled from the spec: \<^verbatim>\<open>updateCurrentSymlinks\<close> of the backend. It creates the
  data directory of the revision, then points the \<open>current\<close> link of the data
  directory and then that of the mount directory at the revision, replacing a link
  that exists; this is the check "is the symlink already correct?" that the spec
  asks of the link step. A directory in the place of a link makes the replacement
  fail (as in the test at line 2212, where the mount directory cannot be written);
  when the second link fails the first is put back to what it was, or removed.
\<close>

definition isSymlink :: "node option \<Rightarrow> bool" where
  "isSymlink n = (case n of Some (Symlink t) \<Rightarrow> True | _ \<Rightarrow> False)"

definition dirOrAbsent :: "node option \<Rightarrow> bool" where
  "dirOrAbsent n = (n = None \<or> n = Some Directory)"

definition restoreSymlink :: "path \<Rightarrow> node option \<Rightarrow> filesystem \<Rightarrow> filesystem" where
  "restoreSymlink p previous fs = (if isSymlink previous then fs(p := previous) else fs(p := None))"

definition updateCurrentSymlinks ::
  "'a LinkInfo_scheme \<Rightarrow> filesystem \<Rightarrow> link_error option \<times> filesystem" where
  "updateCurrentSymlinks i fs =
     (if \<not> dirOrAbsent (fs (dataDir i)) then (Some (ErrNotADirectory (dataDir i)), fs)
      else if fs (currentDataSymlink i) = Some Directory
      then (Some (ErrFileExists (currentDataSymlink i)), fs)
      else if fs (currentActiveSymlink i) = Some Directory
      then (Some (ErrFileExists (currentActiveSymlink i)),
            restoreSymlink (currentDataSymlink i) (fs (currentDataSymlink i))
              (fs(currentDataSymlink i \<mapsto> Symlink (revString (i_Revision i)))))
      else (None,
            fs(dataDir i \<mapsto> Directory,
               currentDataSymlink i \<mapsto> Symlink (revString (i_Revision i)),
               currentActiveSymlink i \<mapsto> Symlink (revString (i_Revision i)))))"

text \<open>
  Modelled from the spec: \<^verbatim>\<open>removeCurrentSymlinks\<close> of the backend; a link that is
  not there is no error (lines 1960-1999).
\<close>

definition removeCurrentSymlinks :: "'a LinkInfo_scheme \<Rightarrow> filesystem \<Rightarrow> filesystem" where
  "removeCurrentSymlinks i fs = fs(currentActiveSymlink i := None, currentDataSymlink i := None)"

text \<open>
  Modelled from the spec: the run inhibition lock of package runinhibit. Locking
  with a hint writes the hint to the lock file of the snap and the previous
  revision to a file named after the hint (lines 2472-2480); unlocking empties an
  existing lock file, removes the information file of a refresh, and creates
  nothing (line 1957). Both go through one unlock and relock of the state.
\<close>

definition hintFile :: "string \<Rightarrow> path" where
  "hintFile name = (InhibitDir, name @ ''.lock'')"

definition inhibitInfoFile :: "string \<Rightarrow> string \<Rightarrow> path" where
  "inhibitInfoFile name hint = (InhibitDir, name @ ''.'' @ hint)"

definition clearHint :: "string \<Rightarrow> filesystem \<Rightarrow> filesystem" where
  "clearHint name fs =
     (case fs (hintFile name) of
        None \<Rightarrow> fs
      | Some n \<Rightarrow> fs(hintFile name \<mapsto> File [], inhibitInfoFile name ''refresh'' := None))"

definition runinhibit_Unlock :: "string \<Rightarrow> System \<Rightarrow> System" where
  "runinhibit_Unlock name s =
     s\<lparr>Files := clearHint name (Files s),
        unlockerCalled := unlockerCalled s + 1,
        relockCalled := relockCalled s + 1\<rparr>"

definition runinhibit_LockWithHint :: "string \<Rightarrow> string \<Rightarrow> Revision \<Rightarrow> System \<Rightarrow> System" where
  "runinhibit_LockWithHint name hint previous s =
     s\<lparr>Files :=
          (Files s)(hintFile name \<mapsto> File hint,
                    inhibitInfoFile name hint \<mapsto> File (''previous='' @ revString previous)),
        unlockerCalled := unlockerCalled s + 1,
        relockCalled := relockCalled s + 1\<rparr>"

text \<open>
  Modelled from the spec: \<^verbatim>\<open>Backend.LinkSnap\<close> of overlord/snapstate/backend, whose
  source is not among the files; what it does is taken from the spec's words on the
  link step and from the tests that call it. It refuses a nil state unlocker, then
  an unset revision; it generates the wrappers and updates the current links; when
  the links fail it removes the wrappers again and returns the error; otherwise it
  releases the run inhibition lock of the snap.
\<close>

definition LinkSnap :: "'a LinkInfo_scheme \<Rightarrow> LinkContext \<Rightarrow> System \<Rightarrow> link_error option \<times> System" where
  "LinkSnap i ctx s =
     (if StateUnlocker ctx = None then (Some ErrNilStateUnlocker, s)
      else if Unset (i_Revision i) then (Some (ErrUnsetRevision (i_InstanceName i)), s)
      else
     (case updateCurrentSymlinks i (generateWrappers (OnClassic s) i ctx (Files s)) of
        (Some e, fs) \<Rightarrow> (Some e, s\<lparr>Files := removeGeneratedWrappers (OnClassic s) i ctx fs\<rparr>)
      | (None, fs) \<Rightarrow> (None, runinhibit_Unlock (i_InstanceName i) (s\<lparr>Files := fs\<rparr>))))"

text \<open>
  Modelled from the spec: \<^verbatim>\<open>Backend.UnlinkSnap\<close>. It refuses a run inhibition hint
  without a state unlocker; with a hint it takes the run inhibition lock; then it
  removes the generated wrappers and the current links.
\<close>

definition UnlinkSnap :: "'a LinkInfo_scheme \<Rightarrow> LinkContext \<Rightarrow> System \<Rightarrow> link_error option \<times> System" where
  "UnlinkSnap i ctx s =
     (if RunInhibitHint ctx \<noteq> [] \<and> StateUnlocker ctx = None
      then (Some ErrNilStateUnlockerWithHint, s)
      else
     (let s1 = (if RunInhibitHint ctx \<noteq> []
                then runinhibit_LockWithHint (i_InstanceName i) (RunInhibitHint ctx) (i_Revision i) s
                else s)
      in (None,
          s1\<lparr>Files :=
               removeCurrentSymlinks i
                 (removeGeneratedWrappers (OnClassic s1) i ctx (Files s1))\<rparr>)))"

text \<open>
  Modelled from the spec: \<^verbatim>\<open>Backend.LinkComponent\<close> and the place information of a
  component (lines 2607-2645): the link of the component, in the components
  directory of the snap revision, is pointed at the mount directory of the
  component revision; a directory in its place makes the call fail.
\<close>

record ContainerPlaceInfo =
  cpi_CompName :: string
  cpi_CompRevision :: Revision
  cpi_SnapName :: string

definition ComponentLinkPath :: "ContainerPlaceInfo \<Rightarrow> Revision \<Rightarrow> path" where
  "ComponentLinkPath cpi snapRev =
     (SnapComponentsDir (cpi_SnapName cpi) snapRev, cpi_CompName cpi)"

definition LinkComponent ::
  "ContainerPlaceInfo \<Rightarrow> Revision \<Rightarrow> System \<Rightarrow> link_error option \<times> System" where
  "LinkComponent cpi snapRev s =
     (if Files s (ComponentLinkPath cpi snapRev) = Some Directory
      then (Some (ErrFileExists (ComponentLinkPath cpi snapRev)), s)
      else (None,
            s\<lparr>Files := (Files s)(ComponentLinkPath cpi snapRev \<mapsto>
                 Symlink (''../mnt/'' @ cpi_CompName cpi @ ''/''
                          @ revString (cpi_CompRevision cpi)))\<rparr>))"

text \<open>
  The directories that hold generated wrappers.
\<close>

definition wrapper_dir :: "dir \<Rightarrow> bool" where
  "wrapper_dir d =
     (d = SnapBinariesDir \<or> d = SnapDesktopFilesDir \<or> d = SnapDesktopIconsDir
      \<or> d = SnapServicesDir \<or> d = SnapUserServicesDir
      \<or> d = SnapDBusSystemServicesDir \<or> d = SnapDBusSessionServicesDir)"

section \<open>Auxiliary definitions for the proofs\<close>

text \<open>
  \<open>firsts key S xs\<close> keeps the elements of \<open>xs\<close> whose key is neither in \<open>S\<close> nor
  the key of an earlier element: the loops above with the map \<open>seen\<close> read as a set.
\<close>

fun firsts :: "('a \<Rightarrow> 'k) \<Rightarrow> 'k set \<Rightarrow> 'a list \<Rightarrow> 'a list" where
  "firsts key S [] = []"
| "firsts key S (x # xs) =
     (if key x \<in> S then firsts key S xs else x # firsts key (insert (key x) S) xs)"

text \<open>
  The tasks \<^verbatim>\<open>doInstall\<close> creates are new: they belong to no lane yet.
\<close>

definition fresh_tasks :: "collaborators \<Rightarrow> bool" where
  "fresh_tasks c =
     (\<forall>st sst snapsup compsups f fc dev ts.
        doInstall c st sst snapsup compsups f fc dev = Inr ts \<longrightarrow> (\<forall>t \<in> set ts. lanes t = []))"

section \<open>Example inputs\<close>

text \<open>
  Concrete collaborators, snaps and options on which the theorems below are
  instantiated: one snap, \<open>core\<close>, is installed; the store answers every request
  with one result per requested snap.
\<close>

definition ro_ex :: "string \<Rightarrow> string \<Rightarrow> Revision \<Rightarrow> RevisionOptions" where
  "ro_ex ch cohort r =
     \<lparr>Channel = ch, CohortKey = cohort, Revision = r, LeaveCohort = False, ValidationSets = None\<rparr>"

definition ss_ex :: "string \<Rightarrow> RevisionOptions \<Rightarrow> bool \<Rightarrow> StoreSnap" where
  "ss_ex n ro skip = \<lparr>InstanceName = n, Components = [], RevOpts = ro, SkipIfPresent = skip\<rparr>"

definition info_ex :: "string \<Rightarrow> Info" where
  "info_ex n =
     \<lparr>i_InstanceName = n, i_SnapName = n, i_Revision = 11, i_Type = ''app'', i_Components = []\<rparr>"

definition allSnaps_ex :: "string \<rightharpoonup> SnapState" where
  "allSnaps_ex =
     [''core'' \<mapsto> \<lparr>Current = 5, TrackingChannel = ''stable'', st_CohortKey = [],
                    IgnoreValidation = False\<rparr>]"

definition tasks_ex :: TaskSet where
  "tasks_ex = [\<lparr>kind = ''prerequisites'', lanes = []\<rparr>, \<lparr>kind = ''link-snap'', lanes = []\<rparr>]"

definition collab_ex :: collaborators where
  "collab_ex =
     \<lparr>All' = (\<lambda>st. Inr allSnaps_ex),
      IsInstalled = (\<lambda>sst. \<not> Unset (Current sst)),
      ValidateInstanceName = (\<lambda>n. if n = [] then Some ''empty'' else None),
      resolveChannel = (\<lambda>ro n fallback dev. Inr ro),
      initializeValidationSets = (\<lambda>ro st opts. Inr (ro\<lparr>ValidationSets := Some []\<rparr>)),
      sendInstallActions =
        (\<lambda>st sns opts.
           Inr (map (\<lambda>sn. \<lparr>sar_Info = info_ex (InstanceName sn), sar_DownloadInfo = ''url'',
                          RedirectChannel = [], Resources = []\<rparr>) sns)),
      ResourceToComponentType = Some,
      checkSnapAgainstValidationSets = (\<lambda>i cs action vs. None),
      DeviceCtxFromState = (\<lambda>st dev. Inr ''model''),
      DevicePastSeeding = (\<lambda>st dev. Inr ''model''),
      checkDiskSpace = (\<lambda>st change infos uid. None),
      setups = (\<lambda>st t opts. Inr (target_setup t, components t)),
      doInstall = (\<lambda>st sst snapsup compsups skip change dev. Inr tasks_ex)\<rparr>"

definition opts_ex :: "string \<Rightarrow> int \<Rightarrow> bool \<Rightarrow> Options" where
  "opts_ex tr lane one =
     \<lparr>Flags = \<lparr>Transaction = tr, Lane = lane, RequireTypeBase = False, SkipConfigure = False\<rparr>,
      UserID = 0, DeviceCtx = None, PrereqTracker = None, FromChange = [], Seed = False,
      ExpectOneSnap = one\<rparr>"

definition goal_ex :: "State \<Rightarrow> Options \<Rightarrow> error + target list" where
  "goal_ex st opts =
     fst (toInstall collab_ex
            (StoreInstallGoal [ss_ex ''hello'' (ro_ex [] [] 0) False, ss_ex ''world'' (ro_ex [] [] 0) False])
            st opts)"

definition lanes_of :: "(error + Info list \<times> TaskSet list) \<times> State \<Rightarrow> (int list list list) option" where
  "lanes_of r = (case fst r of Inl e \<Rightarrow> None | Inr (infos, tss) \<Rightarrow> Some (map (map lanes) tss))"

definition ps_ex :: "string \<Rightarrow> string \<Rightarrow> string \<Rightarrow> PathSnap" where
  "ps_ex p n real =
     \<lparr>Path = p, ps_InstanceName = n, ps_RevOpts = ro_ex [] [] 0,
      ps_SideInfo = Some \<lparr>RealName = real, SnapID = [], si_Revision = 0, si_Channel = []\<rparr>,
      ps_Components = []\<rparr>"

text \<open>
  The snaps of the link tests: \<open>hello\<close> with a command and a daemon (line 1907),
  \<open>hello\<close> with two commands, a desktop file and two icons (line 1677), the snapd
  snap with two of its units (line 2009), and the component of line 2608; the link
  context with nothing set, and the one with a state unlocker (line 1542); a system
  with no files, classic or core.
\<close>

definition app_ex :: "string \<Rightarrow> string \<Rightarrow> App" where
  "app_ex n d = \<lparr>app_Name = n, Daemon = d, DaemonScope = [], ActivatesOn = []\<rparr>"

definition hello_ex :: LinkInfo where
  "hello_ex =
     \<lparr>i_InstanceName = ''hello'', i_SnapName = ''hello'', i_Revision = 11, i_Type = ''app'',
      i_Components = [],
      Apps = [app_ex ''bin'' [], app_ex ''svc'' ''simple''],
      DesktopFiles = [], Icons = [], SnapdUnits = []\<rparr>"

definition hello_gui_ex :: LinkInfo where
  "hello_gui_ex =
     \<lparr>i_InstanceName = ''hello'', i_SnapName = ''hello'', i_Revision = 11, i_Type = ''app'',
      i_Components = [],
      Apps = [app_ex ''foo'' [], app_ex ''bar'' []],
      DesktopFiles = [(''foo.desktop'', ''[Desktop Entry] Name=foo Exec=foo'')],
      Icons = [(''snap.hello.png'', []), (''snap.hello.svg'', [])],
      SnapdUnits = []\<rparr>"

definition snapd_ex :: LinkInfo where
  "snapd_ex =
     \<lparr>i_InstanceName = ''snapd'', i_SnapName = ''snapd'', i_Revision = 11, i_Type = ''snapd'',
      i_Components = [],
      Apps = [], DesktopFiles = [], Icons = [],
      SnapdUnits =
        [(''lib/systemd/system'', ''snapd.service'', ''[Unit] [Service] ExecStart=/usr/lib/snapd/snapd''),
         (''usr/lib/systemd/user'', ''snapd.session-agent.service'', ''[Unit] [Service]'')]\<rparr>"

definition ctx_empty :: LinkContext where
  "ctx_empty =
     \<lparr>FirstInstall = False, IsUndo = False, QuotaGroup = None, RunInhibitHint = [],
      StateUnlocker = None, RequireMountedSnapdSnap = False, HasOtherInstances = False,
      SkipBinaries = False\<rparr>"

definition ctx_unlocker :: LinkContext where
  "ctx_unlocker = ctx_empty\<lparr>StateUnlocker := Some ()\<rparr>"

definition sys_ex :: "bool \<Rightarrow> System" where
  "sys_ex classic = \<lparr>Files = Map.empty, OnClassic = classic, unlockerCalled = 0, relockCalled = 0\<rparr>"

definition cpi_ex :: ContainerPlaceInfo where
  "cpi_ex = \<lparr>cpi_CompName = ''mycomp'', cpi_CompRevision = - 2, cpi_SnapName = ''mysnap''\<rparr>"

section \<open>Goal construction keeps first occurrences\<close>

lemma firsts_keys: "key ` set (firsts key S xs) = key ` set xs - S"
  by (induction xs arbitrary: S) auto

lemma firsts_distinct: "distinct (map key (firsts key S xs))"
proof (induction xs arbitrary: S)
  case Nil
  show ?case by simp
next
  case (Cons x xs)
  have "key x \<notin> key ` set (firsts key (insert (key x) S) xs)"
    by (simp add: firsts_keys)
  with Cons show ?case by simp
qed

lemma firsts_find:
  "x \<in> set (firsts key S xs) \<Longrightarrow> find (\<lambda>y. key y = key x) xs = Some x"
proof (induction xs arbitrary: S)
  case Nil
  then show ?case by simp
next
  case (Cons a xs)
  show ?case
  proof (cases "key a \<in> S")
    case True
    with Cons.prems have mem: "x \<in> set (firsts key S xs)" by simp
    then have "key x \<in> key ` set (firsts key S xs)" by blast
    then have "key x \<notin> S" by (simp add: firsts_keys)
    with True have "key a \<noteq> key x" by auto
    with Cons.IH [OF mem] show ?thesis by simp
  next
    case False
    with Cons.prems have "x = a \<or> x \<in> set (firsts key (insert (key a) S) xs)" by simp
    then show ?thesis
    proof
      assume "x = a"
      then show ?thesis by simp
    next
      assume mem: "x \<in> set (firsts key (insert (key a) S) xs)"
      then have "key x \<in> key ` set (firsts key (insert (key a) S) xs)" by blast
      then have "key a \<noteq> key x" by (auto simp: firsts_keys)
      with Cons.IH [OF mem] show ?thesis by simp
    qed
  qed
qed

lemma firsts_index:
  "firsts key S xs =
     map (\<lambda>i. xs ! i) (filter (\<lambda>i. key (xs ! i) \<notin> S \<union> key ` set (take i xs)) [0..<length xs])"
proof (induction xs arbitrary: S)
  case Nil
  show ?case by simp
next
  case (Cons x xs)
  have upt: "[0..<length (x # xs)] = 0 # map Suc [0..<length xs]"
    by (simp add: upt_conv_Cons map_Suc_upt del: upt_Suc)
  show ?case
    by (simp only: upt)
      (auto simp: Cons.IH filter_map comp_def intro!: arg_cong [where f = "map ((!) xs)"] filter_cong)
qed

lemma firsts_first_occurrences: "firsts key {} xs = first_occurrences key xs"
  by (simp add: firsts_index first_occurrences_def)

lemma StoreInstallGoal_loop_firsts:
  "StoreInstallGoal_loop seen unique xs = unique @ firsts InstanceName (dom seen) xs"
  by (induction xs arbitrary: seen unique) (auto split: option.splits)

lemma PathUpdateGoal_loop_firsts:
  "PathUpdateGoal_loop seen filtered xs = Inr r \<Longrightarrow>
   r = filtered @ firsts ps_InstanceName {k. seen k = Some True} (map effectiveName xs)"
proof (induction xs arbitrary: seen filtered)
  case Nil
  then show ?case by simp
next
  case (Cons a xs)
  have ins: "\<And>k P. {k'. k' \<noteq> k \<longrightarrow> P k'} = insert k {k'. P k'}"
    by auto
  from Cons.prems show ?case
    by (auto simp: effectiveName_def Let_def ins split: if_splits option.splits dest!: Cons.IH)
qed

lemma PathUpdateGoal_loop_fails:
  "(\<exists>e. PathUpdateGoal_loop seen filtered xs = Inl e) \<longleftrightarrow>
   (\<exists>sn \<in> set xs. ps_InstanceName sn = [] \<and> ps_SideInfo sn = None)"
  by (induction xs arbitrary: seen filtered) (auto simp: Let_def split: option.splits)


text \<open>
  Claim C9. Goal construction deduplicates by instance name and keeps the first
  occurrence. For every input list, the snaps of \<^verbatim>\<open>StoreInstallGoal\<close> are the input's
  first occurrences by instance name, in the input's order: their names are distinct,
  every name of the input is kept, and the snap kept for a name is the first snap of
  the input with that name, so its options are those of the first occurrence. The same
  holds of \<^verbatim>\<open>PathUpdateGoal\<close> whenever it returns a goal, the name of a path snap
  being its instance name or, when that is empty, the real name of its side info;
  it returns a goal unless a snap with an empty instance name has a nil side info,
  where the Go code panics.
\<close>

theorem goal_dedup_first_occurrence:
  "snaps (StoreInstallGoal sns) = first_occurrences InstanceName sns
   \<and> distinct (map InstanceName (snaps (StoreInstallGoal sns)))
   \<and> InstanceName ` set (snaps (StoreInstallGoal sns)) = InstanceName ` set sns
   \<and> (\<forall>sn \<in> set (snaps (StoreInstallGoal sns)).
          find (\<lambda>y. InstanceName y = InstanceName sn) sns = Some sn)
   \<and> (\<forall>g. PathUpdateGoal pss = Inr g \<longrightarrow>
          updates g = first_occurrences ps_InstanceName (map effectiveName pss)
          \<and> distinct (map ps_InstanceName (updates g))
          \<and> ps_InstanceName ` set (updates g) = ps_InstanceName ` set (map effectiveName pss)
          \<and> (\<forall>sn \<in> set (updates g).
                find (\<lambda>y. ps_InstanceName y = ps_InstanceName sn) (map effectiveName pss) = Some sn))
   \<and> ((\<exists>e. PathUpdateGoal pss = Inl e) \<longleftrightarrow>
        (\<exists>sn \<in> set pss. ps_InstanceName sn = [] \<and> ps_SideInfo sn = None))"
proof -
  have store: "snaps (StoreInstallGoal sns) = firsts InstanceName {} sns"
    by (simp add: StoreInstallGoal_def StoreInstallGoal_loop_firsts)
  have s1: "snaps (StoreInstallGoal sns) = first_occurrences InstanceName sns"
    by (simp add: store firsts_first_occurrences)
  have s2: "distinct (map InstanceName (snaps (StoreInstallGoal sns)))"
    by (simp add: store firsts_distinct)
  have s3: "InstanceName ` set (snaps (StoreInstallGoal sns)) = InstanceName ` set sns"
    by (simp add: store firsts_keys)
  have s4: "\<forall>sn \<in> set (snaps (StoreInstallGoal sns)).
          find (\<lambda>y. InstanceName y = InstanceName sn) sns = Some sn"
    by (simp add: store firsts_find)
  have p1: "\<forall>g. PathUpdateGoal pss = Inr g \<longrightarrow>
          updates g = first_occurrences ps_InstanceName (map effectiveName pss)
          \<and> distinct (map ps_InstanceName (updates g))
          \<and> ps_InstanceName ` set (updates g) = ps_InstanceName ` set (map effectiveName pss)
          \<and> (\<forall>sn \<in> set (updates g).
                find (\<lambda>y. ps_InstanceName y = ps_InstanceName sn) (map effectiveName pss) = Some sn)"
  proof (intro allI impI)
    fix g
    assume "PathUpdateGoal pss = Inr g"
    then obtain r where r: "PathUpdateGoal_loop Map.empty [] pss = Inr r" and g: "updates g = r"
      by (cases "PathUpdateGoal_loop Map.empty [] pss") (auto simp: PathUpdateGoal_def)
    from PathUpdateGoal_loop_firsts [OF r]
    have "r = firsts ps_InstanceName {} (map effectiveName pss)" by simp
    with g have u: "updates g = firsts ps_InstanceName {} (map effectiveName pss)" by simp
    have e: "updates g = first_occurrences ps_InstanceName (map effectiveName pss)"
      by (simp only: u firsts_first_occurrences)
    have d: "distinct (map ps_InstanceName (updates g))"
      unfolding u by (rule firsts_distinct)
    have k: "ps_InstanceName ` set (updates g) = ps_InstanceName ` set (map effectiveName pss)"
      unfolding u by (simp only: firsts_keys Diff_empty)
    have f: "\<forall>sn \<in> set (updates g).
                find (\<lambda>y. ps_InstanceName y = ps_InstanceName sn) (map effectiveName pss) = Some sn"
      unfolding u by (blast intro: firsts_find)
    show "updates g = first_occurrences ps_InstanceName (map effectiveName pss)
          \<and> distinct (map ps_InstanceName (updates g))
          \<and> ps_InstanceName ` set (updates g) = ps_InstanceName ` set (map effectiveName pss)
          \<and> (\<forall>sn \<in> set (updates g).
                find (\<lambda>y. ps_InstanceName y = ps_InstanceName sn) (map effectiveName pss) = Some sn)"
      using e d k f by blast
  qed
  have p2: "(\<exists>e. PathUpdateGoal pss = Inl e) \<longleftrightarrow>
        (\<exists>sn \<in> set pss. ps_InstanceName sn = [] \<and> ps_SideInfo sn = None)"
  proof -
    have "(\<exists>e. PathUpdateGoal pss = Inl e) \<longleftrightarrow> (\<exists>e. PathUpdateGoal_loop Map.empty [] pss = Inl e)"
      by (cases "PathUpdateGoal_loop Map.empty [] pss") (auto simp: PathUpdateGoal_def)
    then show ?thesis by (simp only: PathUpdateGoal_loop_fails)
  qed
  from s1 s2 s3 s4 p1 p2 show ?thesis by blast
qed

theorem goal_dedup_first_occurrence_witness:
  "snaps (StoreInstallGoal [ss_ex ''a'' (ro_ex [] [] 0) False, ss_ex ''b'' (ro_ex [] [] 0) False, ss_ex ''a'' (ro_ex ''edge'' [] 0) True])
     = [ss_ex ''a'' (ro_ex [] [] 0) False, ss_ex ''b'' (ro_ex [] [] 0) False]
   \<and> first_occurrences InstanceName [ss_ex ''a'' (ro_ex [] [] 0) False, ss_ex ''b'' (ro_ex [] [] 0) False, ss_ex ''a'' (ro_ex ''edge'' [] 0) True]
     = [ss_ex ''a'' (ro_ex [] [] 0) False, ss_ex ''b'' (ro_ex [] [] 0) False]
   \<and> PathUpdateGoal [ps_ex ''/1'' [] ''foo'', ps_ex ''/2'' ''foo'' ''foo'', ps_ex ''/3'' ''bar'' ''bar'']
     = Inr \<lparr>updates = [ps_ex ''/1'' ''foo'' ''foo'', ps_ex ''/3'' ''bar'' ''bar'']\<rparr>
   \<and> first_occurrences ps_InstanceName
        (map effectiveName [ps_ex ''/1'' [] ''foo'', ps_ex ''/2'' ''foo'' ''foo'', ps_ex ''/3'' ''bar'' ''bar''])
     = [ps_ex ''/1'' ''foo'' ''foo'', ps_ex ''/3'' ''bar'' ''bar'']"
proof -
  let ?sns = "[ss_ex ''a'' (ro_ex [] [] 0) False, ss_ex ''b'' (ro_ex [] [] 0) False, ss_ex ''a'' (ro_ex ''edge'' [] 0) True]"
  let ?pss = "[ps_ex ''/1'' [] ''foo'', ps_ex ''/2'' ''foo'' ''foo'', ps_ex ''/3'' ''bar'' ''bar'']"
  have a: "snaps (StoreInstallGoal ?sns) = [ss_ex ''a'' (ro_ex [] [] 0) False, ss_ex ''b'' (ro_ex [] [] 0) False]"
    by (simp add: StoreInstallGoal_def ss_ex_def)
  have b: "PathUpdateGoal ?pss
     = Inr \<lparr>updates = [ps_ex ''/1'' ''foo'' ''foo'', ps_ex ''/3'' ''bar'' ''bar'']\<rparr>"
    by (simp add: PathUpdateGoal_def ps_ex_def Let_def)
  from goal_dedup_first_occurrence [of ?sns ?pss] a b show ?thesis
    by (metis pathUpdateGoal.select_convs(1))
qed


section \<open>The lane each task set joins\<close>

lemma Transaction_consts_distinct: "TransactionAllSnaps \<noteq> TransactionPerSnap"
  by (simp add: TransactionAllSnaps_def TransactionPerSnap_def)

lemma JoinLane_fresh:
  "\<forall>t \<in> set ts. lanes t = [] \<Longrightarrow> \<forall>t \<in> set (JoinLane ts lane). lanes t = [lane]"
  by (auto simp: JoinLane_def Task_JoinLane_def)

lemma Flags_trackerAdd [simp]: "Flags (trackerAdd opts i) = Flags opts"
  by (simp add: trackerAdd_def)

lemma InstallWithGoal_loop_Cons_success:
  assumes "InstallWithGoal_loop c opts st infos tss (t # rest) = (Inr r, st')"
  shows "\<exists>snapsup compsups ts.
           doInstall c st (snapst t) snapsup compsups (SkipConfigure (Flags opts))
             (FromChange opts) (DeviceCtx opts) = Inr ts
         \<and> InstallWithGoal_loop c (trackerAdd opts (info t))
             (snd (generateLane st (trackerAdd opts (info t))))
             (infos @ [info t])
             (tss @ [JoinLane ts (fst (generateLane st (trackerAdd opts (info t))))])
             rest = (Inr r, st')"
  using assms by (auto split: if_splits sum.splits prod.splits)

lemma InstallWithGoal_loop_all_snaps:
  assumes "fresh_tasks c"
    and "InstallWithGoal_loop c opts st infos tss targets = (Inr (infos', tss'), st')"
    and "Transaction (Flags opts) = TransactionAllSnaps"
  shows "\<exists>new. tss' = tss @ new \<and> infos' = infos @ map info targets
           \<and> length new = length targets
           \<and> (\<forall>ts \<in> set new. \<forall>t \<in> set ts. lanes t = [Lane (Flags opts)]) \<and> st' = st"
  using assms(2,3)
proof (induction targets arbitrary: opts st infos tss)
  case Nil
  then show ?case by simp
next
  case (Cons t rest)
  from InstallWithGoal_loop_Cons_success [OF Cons.prems(1)]
  obtain snapsup compsups ts where
    d: "doInstall c st (snapst t) snapsup compsups (SkipConfigure (Flags opts))
             (FromChange opts) (DeviceCtx opts) = Inr ts"
    and l: "InstallWithGoal_loop c (trackerAdd opts (info t))
             (snd (generateLane st (trackerAdd opts (info t))))
             (infos @ [info t])
             (tss @ [JoinLane ts (fst (generateLane st (trackerAdd opts (info t))))])
             rest = (Inr (infos', tss'), st')"
    by blast
  have g: "generateLane st (trackerAdd opts (info t)) = (Lane (Flags opts), st)"
    using Cons.prems(2) by (simp add: generateLane_def)
  from assms(1) d have f: "\<forall>x \<in> set ts. lanes x = []"
    unfolding fresh_tasks_def by blast
  have tr: "Transaction (Flags (trackerAdd opts (info t))) = TransactionAllSnaps"
    using Cons.prems(2) by simp
  from Cons.IH [OF l tr] obtain new where
    n: "tss' = (tss @ [JoinLane ts (fst (generateLane st (trackerAdd opts (info t))))]) @ new"
      "infos' = (infos @ [info t]) @ map info rest" "length new = length rest"
      "\<forall>ts \<in> set new. \<forall>t \<in> set ts. lanes t = [Lane (Flags opts)]"
      "st' = snd (generateLane st (trackerAdd opts (info t)))"
    by auto
  let ?new = "JoinLane ts (Lane (Flags opts)) # new"
  have "tss' = tss @ ?new" using n(1) g by simp
  moreover have "infos' = infos @ map info (t # rest)" using n(2) by simp
  moreover have "length ?new = length (t # rest)" using n(3) by simp
  moreover have "\<forall>ts \<in> set ?new. \<forall>t \<in> set ts. lanes t = [Lane (Flags opts)]"
    using n(4) JoinLane_fresh [OF f, of "Lane (Flags opts)"] by simp
  moreover have "st' = st" using n(5) g by simp
  ultimately show ?case by blast
qed

lemma InstallWithGoal_loop_no_transaction:
  assumes "fresh_tasks c"
    and "InstallWithGoal_loop c opts st infos tss targets = (Inr (infos', tss'), st')"
    and "Transaction (Flags opts) \<noteq> TransactionAllSnaps"
    and "Transaction (Flags opts) \<noteq> TransactionPerSnap"
  shows "\<exists>new. tss' = tss @ new \<and> infos' = infos @ map info targets
           \<and> length new = length targets
           \<and> (\<forall>ts \<in> set new. \<forall>t \<in> set ts. lanes t = [0]) \<and> st' = st"
  using assms(2,3,4)
proof (induction targets arbitrary: opts st infos tss)
  case Nil
  then show ?case by simp
next
  case (Cons t rest)
  from InstallWithGoal_loop_Cons_success [OF Cons.prems(1)]
  obtain snapsup compsups ts where
    d: "doInstall c st (snapst t) snapsup compsups (SkipConfigure (Flags opts))
             (FromChange opts) (DeviceCtx opts) = Inr ts"
    and l: "InstallWithGoal_loop c (trackerAdd opts (info t))
             (snd (generateLane st (trackerAdd opts (info t))))
             (infos @ [info t])
             (tss @ [JoinLane ts (fst (generateLane st (trackerAdd opts (info t))))])
             rest = (Inr (infos', tss'), st')"
    by blast
  have g: "generateLane st (trackerAdd opts (info t)) = (0, st)"
    using Cons.prems(2,3) by (simp add: generateLane_def)
  from assms(1) d have f: "\<forall>x \<in> set ts. lanes x = []"
    unfolding fresh_tasks_def by blast
  have tr: "Transaction (Flags (trackerAdd opts (info t))) \<noteq> TransactionAllSnaps"
    "Transaction (Flags (trackerAdd opts (info t))) \<noteq> TransactionPerSnap"
    using Cons.prems(2,3) by simp_all
  from Cons.IH [OF l tr] obtain new where
    n: "tss' = (tss @ [JoinLane ts (fst (generateLane st (trackerAdd opts (info t))))]) @ new"
      "infos' = (infos @ [info t]) @ map info rest" "length new = length rest"
      "\<forall>ts \<in> set new. \<forall>t \<in> set ts. lanes t = [0]"
      "st' = snd (generateLane st (trackerAdd opts (info t)))"
    by auto
  let ?new = "JoinLane ts 0 # new"
  have "tss' = tss @ ?new" using n(1) g by simp
  moreover have "infos' = infos @ map info (t # rest)" using n(2) by simp
  moreover have "length ?new = length (t # rest)" using n(3) by simp
  moreover have "\<forall>ts \<in> set ?new. \<forall>t \<in> set ts. lanes t = [0]"
    using n(4) JoinLane_fresh [OF f, of 0] by simp
  moreover have "st' = st" using n(5) g by simp
  ultimately show ?case by blast
qed

lemma InstallWithGoal_loop_per_snap:
  assumes "fresh_tasks c"
    and "InstallWithGoal_loop c opts st infos tss targets = (Inr (infos', tss'), st')"
    and "Transaction (Flags opts) = TransactionPerSnap"
  shows "\<exists>new. tss' = tss @ new \<and> infos' = infos @ map info targets
           \<and> length new = length targets
           \<and> (\<forall>i < length new. \<forall>t \<in> set (new ! i). lanes t = [lastLaneID st + 1 + int i])
           \<and> st' = st\<lparr>lastLaneID := lastLaneID st + int (length new)\<rparr>"
  using assms(2,3)
proof (induction targets arbitrary: opts st infos tss)
  case Nil
  then show ?case by simp
next
  case (Cons t rest)
  from InstallWithGoal_loop_Cons_success [OF Cons.prems(1)]
  obtain snapsup compsups ts where
    d: "doInstall c st (snapst t) snapsup compsups (SkipConfigure (Flags opts))
             (FromChange opts) (DeviceCtx opts) = Inr ts"
    and l: "InstallWithGoal_loop c (trackerAdd opts (info t))
             (snd (generateLane st (trackerAdd opts (info t))))
             (infos @ [info t])
             (tss @ [JoinLane ts (fst (generateLane st (trackerAdd opts (info t))))])
             rest = (Inr (infos', tss'), st')"
    by blast
  let ?st1 = "st\<lparr>lastLaneID := lastLaneID st + 1\<rparr>"
  have g: "generateLane st (trackerAdd opts (info t)) = (lastLaneID st + 1, ?st1)"
    using Cons.prems(2) Transaction_consts_distinct by (simp add: generateLane_def NewLane_def)
  from assms(1) d have f: "\<forall>x \<in> set ts. lanes x = []"
    unfolding fresh_tasks_def by blast
  have tr: "Transaction (Flags (trackerAdd opts (info t))) = TransactionPerSnap"
    using Cons.prems(2) by simp
  from Cons.IH [OF l tr] obtain new where
    n: "tss' = (tss @ [JoinLane ts (fst (generateLane st (trackerAdd opts (info t))))]) @ new"
      "infos' = (infos @ [info t]) @ map info rest" "length new = length rest"
      "\<forall>i < length new. \<forall>t \<in> set (new ! i). lanes t = [lastLaneID ?st1 + 1 + int i]"
      "st' = ?st1\<lparr>lastLaneID := lastLaneID ?st1 + int (length new)\<rparr>"
    unfolding g snd_conv by blast
  let ?new = "JoinLane ts (lastLaneID st + 1) # new"
  have "tss' = tss @ ?new" using n(1) g by simp
  moreover have "infos' = infos @ map info (t # rest)" using n(2) by simp
  moreover have "length ?new = length (t # rest)" using n(3) by simp
  moreover have "\<forall>i < length ?new. \<forall>t \<in> set (?new ! i). lanes t = [lastLaneID st + 1 + int i]"
  proof (intro allI impI)
    fix i assume i: "i < length ?new"
    show "\<forall>t \<in> set (?new ! i). lanes t = [lastLaneID st + 1 + int i]"
    proof (cases i)
      case 0
      then show ?thesis using JoinLane_fresh [OF f, of "lastLaneID st + 1"] by simp
    next
      case (Suc j)
      with i have "j < length new" by simp
      with n(4) have "\<forall>t \<in> set (new ! j). lanes t = [lastLaneID ?st1 + 1 + int j]" by blast
      with Suc show ?thesis by (simp add: add.commute add.left_commute)
    qed
  qed
  moreover have "st' = st\<lparr>lastLaneID := lastLaneID st + int (length ?new)\<rparr>"
    using n(5) by (simp add: add.commute add.left_commute)
  ultimately show ?case by blast
qed


lemma InstallWithGoal_success:
  assumes "InstallWithGoal c st goal opts = (Inr r, st')"
  shows "\<exists>opts1 st1 opts2 targets'.
           setDefaultLane opts st = (Inr opts1, st1) \<and> Flags opts2 = Flags opts1
         \<and> InstallWithGoal_loop c opts2 st1 [] [] targets' = (Inr r, st')"
proof -
  obtain x st1 where sd: "setDefaultLane opts st = (x, st1)" by (cases "setDefaultLane opts st")
  with assms obtain opts1 where x: "x = Inr opts1"
    by (cases x) (auto simp: InstallWithGoal_def)
  from assms sd x obtain opts2 where
    o2: "setDefaultSnapstateOptions c st1 opts1 = Inr opts2"
    by (cases "setDefaultSnapstateOptions c st1 opts1") (auto simp: InstallWithGoal_def)
  then have fl: "Flags opts2 = Flags opts1"
    by (auto simp: setDefaultSnapstateOptions_def split: sum.splits)
  from assms sd x o2 obtain targets' where
    "InstallWithGoal_loop c opts2 st1 [] [] targets' = (Inr r, st')"
    by (auto simp: InstallWithGoal_def split: sum.splits if_splits option.splits)
  with sd x fl show ?thesis by blast
qed

text \<open>
  Claim C1. For every successful call of \<^verbatim>\<open>InstallWithGoal\<close>, each returned task set
  has joined exactly one lane, fixed by the transaction option. With "all-snaps" every
  task of every task set is in the same lane: the caller's lane when it is not zero,
  else the lane \<^verbatim>\<open>state.NewLane\<close> allocates, the counter's next value. With "per-snap"
  the i-th task set is in a lane of its own, the i-th value the counter takes after
  the call starts. With any other transaction the task sets join lane 0 and the
  state's lane counter is left as it was. A lane other than zero with a transaction
  other than "all-snaps" is refused with an error, whatever the goal and the
  collaborators: nothing has been asked of them, and no lane has been allocated.
  The tasks that \<^verbatim>\<open>doInstall\<close> returns are taken to be new, in no lane.
\<close>

theorem InstallWithGoal_lanes:
  assumes fresh: "fresh_tasks c"
  shows "(Transaction (Flags opts) \<noteq> TransactionAllSnaps \<and> Lane (Flags opts) \<noteq> 0 \<longrightarrow>
            InstallWithGoal c st goal opts = (Inl ErrLaneWithoutTransaction, st))
       \<and> (\<forall>infos tss st'. InstallWithGoal c st goal opts = (Inr (infos, tss), st') \<longrightarrow>
            length tss = length infos
          \<and> (Transaction (Flags opts) = TransactionAllSnaps \<longrightarrow>
               (\<forall>ts \<in> set tss. \<forall>t \<in> set ts.
                  lanes t = [if Lane (Flags opts) = 0 then lastLaneID st + 1 else Lane (Flags opts)])
             \<and> lastLaneID st' = (if Lane (Flags opts) = 0 then lastLaneID st + 1 else lastLaneID st))
          \<and> (Transaction (Flags opts) = TransactionPerSnap \<longrightarrow>
               (\<forall>i < length tss. \<forall>t \<in> set (tss ! i). lanes t = [lastLaneID st + 1 + int i])
             \<and> lastLaneID st' = lastLaneID st + int (length tss))
          \<and> (Transaction (Flags opts) \<noteq> TransactionAllSnaps
               \<and> Transaction (Flags opts) \<noteq> TransactionPerSnap \<longrightarrow>
               (\<forall>ts \<in> set tss. \<forall>t \<in> set ts. lanes t = [0]) \<and> st' = st))"
proof -
  have rejected: "Transaction (Flags opts) \<noteq> TransactionAllSnaps \<and> Lane (Flags opts) \<noteq> 0 \<longrightarrow>
            InstallWithGoal c st goal opts = (Inl ErrLaneWithoutTransaction, st)"
    by (simp add: InstallWithGoal_def setDefaultLane_def)
  have joined: "length tss = length infos
          \<and> (Transaction (Flags opts) = TransactionAllSnaps \<longrightarrow>
               (\<forall>ts \<in> set tss. \<forall>t \<in> set ts.
                  lanes t = [if Lane (Flags opts) = 0 then lastLaneID st + 1 else Lane (Flags opts)])
             \<and> lastLaneID st' = (if Lane (Flags opts) = 0 then lastLaneID st + 1 else lastLaneID st))
          \<and> (Transaction (Flags opts) = TransactionPerSnap \<longrightarrow>
               (\<forall>i < length tss. \<forall>t \<in> set (tss ! i). lanes t = [lastLaneID st + 1 + int i])
             \<and> lastLaneID st' = lastLaneID st + int (length tss))
          \<and> (Transaction (Flags opts) \<noteq> TransactionAllSnaps
               \<and> Transaction (Flags opts) \<noteq> TransactionPerSnap \<longrightarrow>
               (\<forall>ts \<in> set tss. \<forall>t \<in> set ts. lanes t = [0]) \<and> st' = st)"
    if ok: "InstallWithGoal c st goal opts = (Inr (infos, tss), st')" for infos tss st'
  proof -
    from InstallWithGoal_success [OF ok] obtain opts1 st1 opts2 targets' where
      sd: "setDefaultLane opts st = (Inr opts1, st1)" and fl: "Flags opts2 = Flags opts1"
      and lp: "InstallWithGoal_loop c opts2 st1 [] [] targets' = (Inr (infos, tss), st')"
      by blast
    have len: "length tss = length infos"
    proof (cases "Transaction (Flags opts2) = TransactionAllSnaps")
      case True
      from InstallWithGoal_loop_all_snaps [OF fresh lp True] show ?thesis by auto
    next
      case False
      show ?thesis
      proof (cases "Transaction (Flags opts2) = TransactionPerSnap")
        case True
        from InstallWithGoal_loop_per_snap [OF fresh lp True] show ?thesis by auto
      next
        case F2: False
        from InstallWithGoal_loop_no_transaction [OF fresh lp False F2] show ?thesis by auto
      qed
    qed
    have all_snaps: "(\<forall>ts \<in> set tss. \<forall>t \<in> set ts.
                  lanes t = [if Lane (Flags opts) = 0 then lastLaneID st + 1 else Lane (Flags opts)])
             \<and> lastLaneID st' = (if Lane (Flags opts) = 0 then lastLaneID st + 1 else lastLaneID st)"
      if tr: "Transaction (Flags opts) = TransactionAllSnaps"
    proof -
      from sd tr have o1: "Transaction (Flags opts1) = TransactionAllSnaps"
        and l1: "Lane (Flags opts1) =
                  (if Lane (Flags opts) = 0 then lastLaneID st + 1 else Lane (Flags opts))"
        and s1: "lastLaneID st1 = (if Lane (Flags opts) = 0 then lastLaneID st + 1 else lastLaneID st)"
        by (auto simp: setDefaultLane_def NewLane_def split: if_splits)
      from o1 fl have o2: "Transaction (Flags opts2) = TransactionAllSnaps" by simp
      from InstallWithGoal_loop_all_snaps [OF fresh lp o2] obtain new where
        "tss = [] @ new" "\<forall>ts \<in> set new. \<forall>t \<in> set ts. lanes t = [Lane (Flags opts2)]" "st' = st1"
        by blast
      with l1 s1 fl show ?thesis by simp
    qed
    have per_snap: "(\<forall>i < length tss. \<forall>t \<in> set (tss ! i). lanes t = [lastLaneID st + 1 + int i])
             \<and> lastLaneID st' = lastLaneID st + int (length tss)"
      if tr: "Transaction (Flags opts) = TransactionPerSnap"
    proof -
      from tr Transaction_consts_distinct have na: "Transaction (Flags opts) \<noteq> TransactionAllSnaps"
        by simp
      from sd tr na have o1: "opts1 = opts" and s1: "st1 = st"
        by (auto simp: setDefaultLane_def split: if_splits)
      from o1 fl tr have o2: "Transaction (Flags opts2) = TransactionPerSnap" by simp
      from InstallWithGoal_loop_per_snap [OF fresh lp o2] obtain new where
        "tss = [] @ new"
        "\<forall>i < length new. \<forall>t \<in> set (new ! i). lanes t = [lastLaneID st1 + 1 + int i]"
        "st' = st1\<lparr>lastLaneID := lastLaneID st1 + int (length new)\<rparr>"
        by blast
      with s1 show ?thesis by simp
    qed
    have no_transaction: "(\<forall>ts \<in> set tss. \<forall>t \<in> set ts. lanes t = [0]) \<and> st' = st"
      if tr: "Transaction (Flags opts) \<noteq> TransactionAllSnaps
                 \<and> Transaction (Flags opts) \<noteq> TransactionPerSnap"
    proof -
      from sd tr have o1: "opts1 = opts" and s1: "st1 = st"
        by (auto simp: setDefaultLane_def split: if_splits)
      from o1 fl tr have o2: "Transaction (Flags opts2) \<noteq> TransactionAllSnaps"
        "Transaction (Flags opts2) \<noteq> TransactionPerSnap" by simp_all
      from InstallWithGoal_loop_no_transaction [OF fresh lp o2] obtain new where
        "tss = [] @ new" "\<forall>ts \<in> set new. \<forall>t \<in> set ts. lanes t = [0]" "st' = st1"
        by blast
      with s1 show ?thesis by simp
    qed
    from len all_snaps per_snap no_transaction show ?thesis by blast
  qed
  from rejected joined show ?thesis by blast
qed

lemma fresh_tasks_collab_ex: "fresh_tasks collab_ex"
  by (simp add: fresh_tasks_def collab_ex_def tasks_ex_def)

lemma goal_ex_value:
  "goal_ex st opts =
     (if ExpectOneSnap opts then Inl ErrExpectedOneSnap
      else Inr (map (\<lambda>n. \<lparr>target_setup = \<lparr>su_Channel = ''stable'', su_CohortKey = [],
                                         su_DownloadInfo = Some ''url'', su_SnapPath = []\<rparr>,
                         info = info_ex n,
                         snapst = \<lparr>Current = 0, TrackingChannel = [], st_CohortKey = [],
                                   IgnoreValidation = False\<rparr>,
                         components = []\<rparr>) [''hello'', ''world'']))"
  by (simp add: goal_ex_def toInstall_def StoreInstallGoal_def collab_ex_def validateAndPrune_def
      installed_def allSnaps_ex_def validateRevisionOpts_def ss_ex_def ro_ex_def Unset_def
      snap_def componentTargetsFromActionResult_def info_ex_def)


lemmas InstallWithGoal_eval =
  InstallWithGoal_def setDefaultLane_def setDefaultSnapstateOptions_def generateLane_def
  NewLane_def JoinLane_def Task_JoinLane_def trackerAdd_def sortComponents_def opts_ex_def
  TransactionAllSnaps_def TransactionPerSnap_def goal_ex_value collab_ex_def tasks_ex_def
  lanes_of_def info_ex_def

theorem InstallWithGoal_lanes_witness:
  "fresh_tasks collab_ex
   \<and> lanes_of (InstallWithGoal collab_ex \<lparr>lastLaneID = 7\<rparr> goal_ex (opts_ex TransactionPerSnap 0 False))
       = Some [[[8], [8]], [[9], [9]]]
   \<and> snd (InstallWithGoal collab_ex \<lparr>lastLaneID = 7\<rparr> goal_ex (opts_ex TransactionPerSnap 0 False))
       = \<lparr>lastLaneID = 9\<rparr>
   \<and> lanes_of (InstallWithGoal collab_ex \<lparr>lastLaneID = 7\<rparr> goal_ex (opts_ex TransactionAllSnaps 0 False))
       = Some [[[8], [8]], [[8], [8]]]
   \<and> snd (InstallWithGoal collab_ex \<lparr>lastLaneID = 7\<rparr> goal_ex (opts_ex TransactionAllSnaps 0 False))
       = \<lparr>lastLaneID = 8\<rparr>
   \<and> lanes_of (InstallWithGoal collab_ex \<lparr>lastLaneID = 7\<rparr> goal_ex (opts_ex TransactionAllSnaps 3 False))
       = Some [[[3], [3]], [[3], [3]]]
   \<and> lanes_of (InstallWithGoal collab_ex \<lparr>lastLaneID = 7\<rparr> goal_ex (opts_ex [] 0 False))
       = Some [[[0], [0]], [[0], [0]]]
   \<and> InstallWithGoal collab_ex \<lparr>lastLaneID = 7\<rparr> goal_ex (opts_ex TransactionPerSnap 3 False)
       = (Inl ErrLaneWithoutTransaction, \<lparr>lastLaneID = 7\<rparr>)"
proof -
  have per: "lanes_of (InstallWithGoal collab_ex \<lparr>lastLaneID = 7\<rparr> goal_ex (opts_ex TransactionPerSnap 0 False))
       = Some [[[8], [8]], [[9], [9]]]"
    "snd (InstallWithGoal collab_ex \<lparr>lastLaneID = 7\<rparr> goal_ex (opts_ex TransactionPerSnap 0 False))
       = \<lparr>lastLaneID = 9\<rparr>"
    by (simp_all add: InstallWithGoal_eval)
  have all0: "lanes_of (InstallWithGoal collab_ex \<lparr>lastLaneID = 7\<rparr> goal_ex (opts_ex TransactionAllSnaps 0 False))
       = Some [[[8], [8]], [[8], [8]]]"
    "snd (InstallWithGoal collab_ex \<lparr>lastLaneID = 7\<rparr> goal_ex (opts_ex TransactionAllSnaps 0 False))
       = \<lparr>lastLaneID = 8\<rparr>"
    by (simp_all add: InstallWithGoal_eval)
  have all3: "lanes_of (InstallWithGoal collab_ex \<lparr>lastLaneID = 7\<rparr> goal_ex (opts_ex TransactionAllSnaps 3 False))
       = Some [[[3], [3]], [[3], [3]]]"
    by (simp add: InstallWithGoal_eval)
  have none: "lanes_of (InstallWithGoal collab_ex \<lparr>lastLaneID = 7\<rparr> goal_ex (opts_ex [] 0 False))
       = Some [[[0], [0]], [[0], [0]]]"
    by (simp add: InstallWithGoal_eval)
  have hyp: "Transaction (Flags (opts_ex TransactionPerSnap 3 False)) \<noteq> TransactionAllSnaps
             \<and> Lane (Flags (opts_ex TransactionPerSnap 3 False)) \<noteq> 0"
    by (simp add: opts_ex_def TransactionAllSnaps_def TransactionPerSnap_def)
  from InstallWithGoal_lanes [OF fresh_tasks_collab_ex,
      of "opts_ex TransactionPerSnap 3 False" "\<lparr>lastLaneID = 7\<rparr>" goal_ex] hyp
  have rej: "InstallWithGoal collab_ex \<lparr>lastLaneID = 7\<rparr> goal_ex (opts_ex TransactionPerSnap 3 False)
       = (Inl ErrLaneWithoutTransaction, \<lparr>lastLaneID = 7\<rparr>)"
    by blast
  from fresh_tasks_collab_ex per all0 all3 none rej show ?thesis by blast
qed


section \<open>Installed snaps in a store install goal\<close>

lemma validateAndPrune_loop_append:
  "validateAndPrune_loop c st m opts acc (xs @ ys) =
     (case validateAndPrune_loop c st m opts acc xs of
        Inl e \<Rightarrow> Inl e
      | Inr acc' \<Rightarrow> validateAndPrune_loop c st m opts acc' ys)"
  by (induction xs arbitrary: acc) (simp_all split: option.splits sum.splits)

lemma validateAndPrune_loop_success:
  assumes "validateAndPrune_loop c st m opts acc xs = Inr r"
  shows "map InstanceName r = map InstanceName acc @ map InstanceName (filter (\<lambda>sn. \<not> installed c m sn) xs)
       \<and> map SkipIfPresent r = map SkipIfPresent acc @ map SkipIfPresent (filter (\<lambda>sn. \<not> installed c m sn) xs)
       \<and> map Components r = map Components acc @ map Components (filter (\<lambda>sn. \<not> installed c m sn) xs)
       \<and> (\<forall>sn \<in> set xs. installed c m sn \<longrightarrow> SkipIfPresent sn)"
  using assms
proof (induction xs arbitrary: acc)
  case Nil
  then show ?case by simp
next
  case (Cons sn rest)
  show ?case
  proof (cases "installed c m sn")
    case True
    with Cons.prems have skip: "SkipIfPresent sn"
      and rest: "validateAndPrune_loop c st m opts acc rest = Inr r"
      by (auto split: option.splits sum.splits if_splits)
    from Cons.IH [OF rest] True skip show ?thesis by simp
  next
    case False
    with Cons.prems obtain ro where
      rest: "validateAndPrune_loop c st m opts (acc @ [sn\<lparr>RevOpts := ro\<rparr>]) rest = Inr r"
      by (auto split: option.splits sum.splits if_splits)
    from Cons.IH [OF rest] False show ?thesis by simp
  qed
qed

lemma validateAndPrune_loop_already_installed:
  assumes "validateAndPrune_loop c st m opts acc pre = Inr acc'"
    and "ValidateInstanceName c (InstanceName sn) = None"
    and "validateRevisionOpts (RevOpts sn) = Inr ro"
    and "installed c m sn" and "\<not> SkipIfPresent sn"
  shows "validateAndPrune_loop c st m opts acc (pre @ sn # post)
           = Inl (AlreadyInstalledError (InstanceName sn))"
  using assms by (simp add: validateAndPrune_loop_append)

text \<open>
  Claim C8, as stated, fails: with an installed snap that is not marked
  \<^verbatim>\<open>SkipIfPresent\<close> among the requested ones, \<^verbatim>\<open>toInstall\<close> can fail with another
  error. The checks run in the order of the source: the count expected by
  \<^verbatim>\<open>ExpectOneSnap\<close>, then per snap the instance name, the revision options and only
  then whether the snap is installed. Below, an installed snap that asks for a cohort
  and a revision gets the revision-options error, and an installed snap requested
  with a second snap under \<^verbatim>\<open>ExpectOneSnap\<close> gets \<^verbatim>\<open>ErrExpectedOneSnap\<close>.
\<close>

theorem toInstall_already_installed_counterexample:
  "installed collab_ex allSnaps_ex (ss_ex ''core'' (ro_ex [] ''cohort'' 5) False)
   \<and> \<not> SkipIfPresent (ss_ex ''core'' (ro_ex [] ''cohort'' 5) False)
   \<and> toInstall collab_ex \<lparr>snaps = [ss_ex ''core'' (ro_ex [] ''cohort'' 5) False]\<rparr>
        \<lparr>lastLaneID = 0\<rparr> (opts_ex [] 0 False)
       = (Inl (ErrInvalidRevisionOpts ''core'' ErrRevisionAndCohort), [])
   \<and> installed collab_ex allSnaps_ex (ss_ex ''core'' (ro_ex [] [] 0) False)
   \<and> \<not> SkipIfPresent (ss_ex ''core'' (ro_ex [] [] 0) False)
   \<and> toInstall collab_ex
        \<lparr>snaps = [ss_ex ''core'' (ro_ex [] [] 0) False, ss_ex ''hello'' (ro_ex [] [] 0) False]\<rparr>
        \<lparr>lastLaneID = 0\<rparr> (opts_ex [] 0 True)
       = (Inl ErrExpectedOneSnap, [])"
  by (simp add: toInstall_def validateAndPrune_def installed_def collab_ex_def allSnaps_ex_def
      ss_ex_def ro_ex_def opts_ex_def validateRevisionOpts_def Unset_def)

text \<open>
  Claim C8, amended. When the state's snaps can be read: if some requested snap is
  installed and not marked \<^verbatim>\<open>SkipIfPresent\<close>, \<^verbatim>\<open>toInstall\<close> fails and has not called
  \<^verbatim>\<open>sendInstallActions\<close>. Its error is that of the first check that fails, in the
  order of the source: \<^verbatim>\<open>ErrExpectedOneSnap\<close> when the count expected by
  \<^verbatim>\<open>ExpectOneSnap\<close> is wrong; else the error of the loop over the snaps before the
  installed one, if it fails there; else the error of the installed snap's own
  instance name; else that of its own revision options; and
  \<^verbatim>\<open>AlreadyInstalledError\<close> for that snap when all of these pass. When validation
  succeeds, the goal keeps exactly the snaps that are not installed, in order and
  with their components, every installed one having been marked
  \<^verbatim>\<open>SkipIfPresent\<close>; and, unless the count expected by \<^verbatim>\<open>ExpectOneSnap\<close> is wrong,
  \<^verbatim>\<open>sendInstallActions\<close> is called exactly once, with the snaps the goal kept. When
  validation fails it is not called.
\<close>

theorem toInstall_already_installed:
  assumes all: "All' c st = Inr allSnaps"
  shows "((\<exists>sn \<in> set (snaps s). installed c allSnaps sn \<and> \<not> SkipIfPresent sn) \<longrightarrow>
            (\<exists>e. toInstall c s st opts = (Inl e, [])))
       \<and> (\<forall>pre sn post.
            snaps s = pre @ sn # post \<and> installed c allSnaps sn \<and> \<not> SkipIfPresent sn \<longrightarrow>
            toInstall c s st opts =
              (Inl (if ExpectOneSnap opts \<and> length (snaps s) \<noteq> 1 then ErrExpectedOneSnap
                    else case validateAndPrune_loop c st allSnaps opts [] pre of
                      Inl e \<Rightarrow> e
                    | Inr acc \<Rightarrow>
                       (case ValidateInstanceName c (InstanceName sn) of
                          Some msg \<Rightarrow> ErrInvalidInstanceName msg
                        | None \<Rightarrow>
                           (case validateRevisionOpts (RevOpts sn) of
                              Inl e \<Rightarrow> ErrInvalidRevisionOpts (InstanceName sn) e
                            | Inr ro \<Rightarrow> AlreadyInstalledError (InstanceName sn)))), []))
       \<and> (\<forall>s'. validateAndPrune c s st allSnaps opts = Inr s' \<longrightarrow>
            map InstanceName (snaps s')
              = map InstanceName (filter (\<lambda>sn. \<not> installed c allSnaps sn) (snaps s))
            \<and> map SkipIfPresent (snaps s')
              = map SkipIfPresent (filter (\<lambda>sn. \<not> installed c allSnaps sn) (snaps s))
            \<and> map Components (snaps s')
              = map Components (filter (\<lambda>sn. \<not> installed c allSnaps sn) (snaps s))
            \<and> (\<forall>sn \<in> set (snaps s). installed c allSnaps sn \<longrightarrow> SkipIfPresent sn)
            \<and> snd (toInstall c s st opts)
              = (if ExpectOneSnap opts \<and> length (snaps s) \<noteq> 1 then [] else [snaps s']))
       \<and> (\<forall>e. validateAndPrune c s st allSnaps opts = Inl e \<longrightarrow>
            snd (toInstall c s st opts) = [])"
proof -
  have pruned: "map InstanceName (snaps s')
              = map InstanceName (filter (\<lambda>sn. \<not> installed c allSnaps sn) (snaps s))
            \<and> map SkipIfPresent (snaps s')
              = map SkipIfPresent (filter (\<lambda>sn. \<not> installed c allSnaps sn) (snaps s))
            \<and> map Components (snaps s')
              = map Components (filter (\<lambda>sn. \<not> installed c allSnaps sn) (snaps s))
            \<and> (\<forall>sn \<in> set (snaps s). installed c allSnaps sn \<longrightarrow> SkipIfPresent sn)"
    if ok: "validateAndPrune c s st allSnaps opts = Inr s'" for s'
  proof -
    from ok obtain r where r: "validateAndPrune_loop c st allSnaps opts [] (snaps s) = Inr r"
      and s': "snaps s' = r"
      by (cases "validateAndPrune_loop c st allSnaps opts [] (snaps s)")
         (auto simp: validateAndPrune_def)
    from validateAndPrune_loop_success [OF r] s' show ?thesis by simp
  qed
  have sent: "snd (toInstall c s st opts)
              = (if ExpectOneSnap opts \<and> length (snaps s) \<noteq> 1 then [] else [snaps s'])"
    if ok: "validateAndPrune c s st allSnaps opts = Inr s'" for s'
    by (simp add: toInstall_def all ok split: sum.splits option.splits)
  have unsent: "snd (toInstall c s st opts) = []"
    if bad: "validateAndPrune c s st allSnaps opts = Inl e" for e
    by (simp add: toInstall_def all bad)
  have fails: "\<exists>e. toInstall c s st opts = (Inl e, [])"
    if bad: "\<exists>sn \<in> set (snaps s). installed c allSnaps sn \<and> \<not> SkipIfPresent sn"
  proof (cases "validateAndPrune c s st allSnaps opts")
    case (Inl e)
    with all show ?thesis by (simp add: toInstall_def)
  next
    case (Inr s')
    from pruned [OF Inr] bad show ?thesis by blast
  qed
  have exact: "toInstall c s st opts =
              (Inl (if ExpectOneSnap opts \<and> length (snaps s) \<noteq> 1 then ErrExpectedOneSnap
                    else case validateAndPrune_loop c st allSnaps opts [] pre of
                      Inl e \<Rightarrow> e
                    | Inr acc \<Rightarrow>
                       (case ValidateInstanceName c (InstanceName sn) of
                          Some msg \<Rightarrow> ErrInvalidInstanceName msg
                        | None \<Rightarrow>
                           (case validateRevisionOpts (RevOpts sn) of
                              Inl e \<Rightarrow> ErrInvalidRevisionOpts (InstanceName sn) e
                            | Inr ro \<Rightarrow> AlreadyInstalledError (InstanceName sn)))), [])"
    if h: "snaps s = pre @ sn # post \<and> installed c allSnaps sn \<and> \<not> SkipIfPresent sn"
    for pre sn post
  proof (cases "ExpectOneSnap opts \<and> length (snaps s) \<noteq> 1")
    case True
    then show ?thesis by (simp add: toInstall_def)
  next
    case False
    let ?err = "case validateAndPrune_loop c st allSnaps opts [] pre of
                      Inl e \<Rightarrow> e
                    | Inr acc \<Rightarrow>
                       (case ValidateInstanceName c (InstanceName sn) of
                          Some msg \<Rightarrow> ErrInvalidInstanceName msg
                        | None \<Rightarrow>
                           (case validateRevisionOpts (RevOpts sn) of
                              Inl e \<Rightarrow> ErrInvalidRevisionOpts (InstanceName sn) e
                            | Inr ro \<Rightarrow> AlreadyInstalledError (InstanceName sn)))"
    from h have "validateAndPrune_loop c st allSnaps opts [] (pre @ sn # post) = Inl ?err"
      by (auto simp: validateAndPrune_loop_append split: sum.splits option.splits)
    with h have vp: "validateAndPrune c s st allSnaps opts = Inl ?err"
      by (simp add: validateAndPrune_def)
    show ?thesis unfolding toInstall_def by (simp only: False if_False all vp sum.case)
  qed
  from fails exact pruned sent unsent show ?thesis by blast
qed

text \<open>
  With \<open>core\<close> installed: requested after \<open>hello\<close> it gives
  \<^verbatim>\<open>AlreadyInstalledError\<close>; requested after a \<open>hello\<close> that asks for a cohort and a
  revision, the error is that of \<open>hello\<close>; and marked \<^verbatim>\<open>SkipIfPresent\<close> it is
  dropped and the one store request carries \<open>hello\<close> alone.
\<close>

theorem toInstall_already_installed_witness:
  "All' collab_ex \<lparr>lastLaneID = 0\<rparr> = Inr allSnaps_ex
   \<and> installed collab_ex allSnaps_ex (ss_ex ''core'' (ro_ex [] [] 0) False)
   \<and> \<not> SkipIfPresent (ss_ex ''core'' (ro_ex [] [] 0) False)
   \<and> toInstall collab_ex
        \<lparr>snaps = [ss_ex ''hello'' (ro_ex [] [] 0) False, ss_ex ''core'' (ro_ex [] [] 0) False]\<rparr>
        \<lparr>lastLaneID = 0\<rparr> (opts_ex [] 0 False)
       = (Inl (AlreadyInstalledError ''core''), [])
   \<and> toInstall collab_ex
        \<lparr>snaps = [ss_ex ''hello'' (ro_ex [] ''cohort'' 5) False, ss_ex ''core'' (ro_ex [] [] 0) False]\<rparr>
        \<lparr>lastLaneID = 0\<rparr> (opts_ex [] 0 False)
       = (Inl (ErrInvalidRevisionOpts ''hello'' ErrRevisionAndCohort), [])
   \<and> validateAndPrune collab_ex
        \<lparr>snaps = [ss_ex ''core'' (ro_ex [] [] 0) True, ss_ex ''hello'' (ro_ex [] [] 0) False]\<rparr>
        \<lparr>lastLaneID = 0\<rparr> allSnaps_ex (opts_ex [] 0 False)
       = Inr \<lparr>snaps = [ss_ex ''hello'' (ro_ex ''stable'' [] 0\<lparr>ValidationSets := Some []\<rparr>) False]\<rparr>
   \<and> snd (toInstall collab_ex
        \<lparr>snaps = [ss_ex ''core'' (ro_ex [] [] 0) True, ss_ex ''hello'' (ro_ex [] [] 0) False]\<rparr>
        \<lparr>lastLaneID = 0\<rparr> (opts_ex [] 0 False))
       = [[ss_ex ''hello'' (ro_ex ''stable'' [] 0\<lparr>ValidationSets := Some []\<rparr>) False]]"
proof -
  let ?hello = "ss_ex ''hello'' (ro_ex [] [] 0) False"
  let ?cohort = "ss_ex ''hello'' (ro_ex [] ''cohort'' 5) False"
  let ?core = "ss_ex ''core'' (ro_ex [] [] 0) False"
  let ?skip = "ss_ex ''core'' (ro_ex [] [] 0) True"
  let ?kept = "ss_ex ''hello'' (ro_ex ''stable'' [] 0\<lparr>ValidationSets := Some []\<rparr>) False"
  let ?st = "\<lparr>lastLaneID = 0\<rparr>"
  let ?opts = "opts_ex [] 0 False"
  have all: "All' collab_ex ?st = Inr allSnaps_ex"
    by (simp add: collab_ex_def)
  have core: "installed collab_ex allSnaps_ex ?core" "\<not> SkipIfPresent ?core"
    by (simp_all add: installed_def collab_ex_def allSnaps_ex_def ss_ex_def Unset_def)
  have one: "\<not> ExpectOneSnap ?opts"
    by (simp add: opts_ex_def)
  have pre: "validateAndPrune_loop collab_ex ?st allSnaps_ex ?opts [] [?hello] = Inr [?kept]"
    by (simp add: installed_def collab_ex_def allSnaps_ex_def ss_ex_def ro_ex_def
        validateRevisionOpts_def Unset_def)
  have pre': "validateAndPrune_loop collab_ex ?st allSnaps_ex ?opts [] [?cohort]
     = Inl (ErrInvalidRevisionOpts ''hello'' ErrRevisionAndCohort)"
    by (simp add: installed_def collab_ex_def allSnaps_ex_def ss_ex_def ro_ex_def
        validateRevisionOpts_def Unset_def)
  have checks: "InstanceName ?core = ''core''"
    "ValidateInstanceName collab_ex ''core'' = None"
    "validateRevisionOpts (RevOpts ?core) = Inr (ro_ex [] [] 0)"
    by (simp_all add: collab_ex_def ss_ex_def ro_ex_def validateRevisionOpts_def Unset_def)
  have split: "snaps \<lparr>snaps = [?hello, ?core]\<rparr> = [?hello] @ ?core # []
      \<and> installed collab_ex allSnaps_ex ?core \<and> \<not> SkipIfPresent ?core"
    and split': "snaps \<lparr>snaps = [?cohort, ?core]\<rparr> = [?cohort] @ ?core # []
      \<and> installed collab_ex allSnaps_ex ?core \<and> \<not> SkipIfPresent ?core"
    using core by simp_all
  note failing = toInstall_already_installed [OF all, THEN conjunct2, THEN conjunct1, rule_format]
  have a: "toInstall collab_ex \<lparr>snaps = [?hello, ?core]\<rparr> ?st ?opts
       = (Inl (AlreadyInstalledError ''core''), [])"
    using failing [OF split, of ?opts]
    by (simp only: one pre checks simp_thms if_False sum.case option.case)
  have a': "toInstall collab_ex \<lparr>snaps = [?cohort, ?core]\<rparr> ?st ?opts
       = (Inl (ErrInvalidRevisionOpts ''hello'' ErrRevisionAndCohort), [])"
    using failing [OF split', of ?opts]
    by (simp only: one pre' simp_thms if_False sum.case)
  have b: "validateAndPrune collab_ex \<lparr>snaps = [?skip, ?hello]\<rparr> ?st allSnaps_ex ?opts
       = Inr \<lparr>snaps = [?kept]\<rparr>"
    by (simp add: validateAndPrune_def installed_def collab_ex_def allSnaps_ex_def ss_ex_def
        ro_ex_def validateRevisionOpts_def Unset_def)
  note passing = toInstall_already_installed [OF all, THEN conjunct2, THEN conjunct2,
      THEN conjunct1, rule_format, OF b]
  then have c: "snd (toInstall collab_ex \<lparr>snaps = [?skip, ?hello]\<rparr> ?st ?opts) = [[?kept]]"
    by (simp only: one simp_thms if_False storeInstallGoal.select_convs)
  from all core a a' b c show ?thesis by (intro conjI)
qed

section \<open>Files written and removed by the link step\<close>

lemma write_files_apply:
  "write_files ws fs p = (case map_of (rev ws) p of Some n \<Rightarrow> Some n | None \<Rightarrow> fs p)"
  unfolding write_files_def
  by (induction ws arbitrary: fs) (auto split: option.splits simp: map_add_def)

lemma remove_files_apply: "remove_files ps fs p = (if p \<in> set ps then None else fs p)"
  unfolding remove_files_def
  by (induction ps arbitrary: fs) auto

lemma wrapper_lists_dir:
  "x \<in> set (binaries i) \<Longrightarrow> wrapper_dir (fst (fst x))"
  "x \<in> set (services i ctx) \<Longrightarrow> wrapper_dir (fst (fst x))"
  "x \<in> set (dbusActivationFiles i) \<Longrightarrow> wrapper_dir (fst (fst x))"
  "x \<in> set (desktopFiles i) \<Longrightarrow> wrapper_dir (fst (fst x))"
  "x \<in> set (icons i) \<Longrightarrow> wrapper_dir (fst (fst x))"
  "x \<in> set (snapdUnits i) \<Longrightarrow> wrapper_dir (fst (fst x))"
  by (auto simp: binaries_def services_def serviceUnitPath_def dbusActivationFiles_def
      desktopFiles_def icons_def snapdUnits_def snapdUnitDir_def wrapper_dir_def
      split: if_splits option.splits)

lemma generated_wrapper_dir:
  "x \<in> set (generated classic i ctx) \<Longrightarrow> wrapper_dir (fst (fst x))"
  by (auto simp: generated_def dest: wrapper_lists_dir split: if_splits)

lemma removed_wrapper_dir:
  "p \<in> set (removed classic i ctx) \<Longrightarrow> wrapper_dir (fst p)"
  by (auto simp: removed_def dest: wrapper_lists_dir split: if_splits)

lemma map_of_generated_None:
  "\<not> wrapper_dir (fst p) \<Longrightarrow> map_of (rev (generated classic i ctx)) p = None"
  by (auto simp: map_of_eq_None_iff dest: generated_wrapper_dir)

lemma generateWrappers_frame [simp]:
  "\<not> wrapper_dir (fst p) \<Longrightarrow> generateWrappers classic i ctx fs p = fs p"
  by (simp add: generateWrappers_def write_files_apply map_of_generated_None)

lemma generateWrappers_upd [simp]:
  "\<not> wrapper_dir (fst p) \<Longrightarrow>
   generateWrappers classic i ctx (fs(p := v)) = (generateWrappers classic i ctx fs)(p := v)"
  by (rule ext) (auto simp: generateWrappers_def write_files_apply map_of_generated_None split: option.splits)

lemma removeGeneratedWrappers_frame [simp]:
  "\<not> wrapper_dir (fst p) \<Longrightarrow> removeGeneratedWrappers classic i ctx fs p = fs p"
  by (auto simp: removeGeneratedWrappers_def remove_files_apply dest: removed_wrapper_dir)

lemma removeGeneratedWrappers_upd [simp]:
  "\<not> wrapper_dir (fst p) \<Longrightarrow>
   removeGeneratedWrappers classic i ctx (fs(p := v)) = (removeGeneratedWrappers classic i ctx fs)(p := v)"
  by (rule ext) (auto simp: removeGeneratedWrappers_def remove_files_apply dest: removed_wrapper_dir)

lemma generateWrappers_idem [simp]:
  "generateWrappers classic i ctx (generateWrappers classic i ctx fs) = generateWrappers classic i ctx fs"
  by (rule ext) (simp add: generateWrappers_def write_files_apply split: option.splits)

lemma remove_generate_remove [simp]:
  "removeGeneratedWrappers classic i ctx
     (generateWrappers classic i ctx (removeGeneratedWrappers classic i ctx fs))
   = removeGeneratedWrappers classic i ctx (generateWrappers classic i ctx fs)"
  by (rule ext)
     (simp add: removeGeneratedWrappers_def generateWrappers_def write_files_apply remove_files_apply
       split: option.splits)

lemma natString_digit: "natString n \<noteq> [] \<and> hd (natString n) \<in> set ''0123456789''"
proof (induction n rule: natString.induct)
  case (1 n)
  show ?case
  proof (cases "n < 10")
    case True
    then have "''0123456789'' ! n \<in> set ''0123456789''" by (intro nth_mem) simp
    with True show ?thesis by (subst natString.simps, subst natString.simps) simp
  next
    case False
    with 1 have "natString (n div 10) \<noteq> [] \<and> hd (natString (n div 10)) \<in> set ''0123456789''"
      by simp
    with False show ?thesis by (subst natString.simps, subst natString.simps) simp
  qed
qed

lemma revString_not_current: "revString r \<noteq> ''current''"
proof
  assume a: "revString r = ''current''"
  show False
  proof (cases "r < 0")
    case True
    with a show ?thesis by (simp add: revString_def)
  next
    case False
    with a have "natString (nat r) = ''current''" by (simp add: revString_def)
    with natString_digit [of "nat r"] show ?thesis by simp
  qed
qed

lemma revString_current [simp]:
  "(revString r = ''current'') = False" "(''current'' = revString r) = False"
  using revString_not_current [of r] by auto

lemma snap_paths_not_wrapper [simp]:
  "\<not> wrapper_dir (fst (dataDir i))"
  "\<not> wrapper_dir (fst (currentDataSymlink i))"
  "\<not> wrapper_dir (fst (currentActiveSymlink i))"
  "\<not> wrapper_dir (fst (hintFile name))"
  "\<not> wrapper_dir (fst (inhibitInfoFile name hint))"
  by (simp_all add: wrapper_dir_def dataDir_def currentDataSymlink_def currentActiveSymlink_def
      hintFile_def inhibitInfoFile_def)

lemma snap_paths_distinct [simp]:
  "dataDir i \<noteq> currentDataSymlink i" "currentDataSymlink i \<noteq> dataDir i"
  "dataDir i \<noteq> currentActiveSymlink i" "currentActiveSymlink i \<noteq> dataDir i"
  "currentDataSymlink i \<noteq> currentActiveSymlink i" "currentActiveSymlink i \<noteq> currentDataSymlink i"
  "hintFile name \<noteq> dataDir i" "hintFile name \<noteq> currentDataSymlink i"
  "hintFile name \<noteq> currentActiveSymlink i"
  "inhibitInfoFile name hint \<noteq> dataDir i" "inhibitInfoFile name hint \<noteq> currentDataSymlink i"
  "inhibitInfoFile name hint \<noteq> currentActiveSymlink i"
  "dataDir i \<noteq> hintFile name" "currentDataSymlink i \<noteq> hintFile name"
  "currentActiveSymlink i \<noteq> hintFile name"
  "dataDir i \<noteq> inhibitInfoFile name hint" "currentDataSymlink i \<noteq> inhibitInfoFile name hint"
  "currentActiveSymlink i \<noteq> inhibitInfoFile name hint"
  by (simp_all add: dataDir_def currentDataSymlink_def currentActiveSymlink_def
      hintFile_def inhibitInfoFile_def)


lemma generateWrappers_triv [simp]:
  "\<not> wrapper_dir (fst p) \<Longrightarrow> (generateWrappers c i ctx fs)(p := fs p) = generateWrappers c i ctx fs"
  by (rule ext) simp

lemma removeGeneratedWrappers_triv [simp]:
  "\<not> wrapper_dir (fst p) \<Longrightarrow>
   (removeGeneratedWrappers c i ctx fs)(p := fs p) = removeGeneratedWrappers c i ctx fs"
  by (rule ext) simp

lemma update_fst:
  "fst (updateCurrentSymlinks i fs) =
     (if \<not> dirOrAbsent (fs (dataDir i)) then Some (ErrNotADirectory (dataDir i))
      else if fs (currentDataSymlink i) = Some Directory
      then Some (ErrFileExists (currentDataSymlink i))
      else if fs (currentActiveSymlink i) = Some Directory
      then Some (ErrFileExists (currentActiveSymlink i))
      else None)"
  by (simp add: updateCurrentSymlinks_def)

lemma update_snd:
  "snd (updateCurrentSymlinks i fs) p =
     (if \<not> dirOrAbsent (fs (dataDir i)) \<or> fs (currentDataSymlink i) = Some Directory then fs p
      else if fs (currentActiveSymlink i) = Some Directory
      then (if p = currentDataSymlink i \<and> \<not> isSymlink (fs (currentDataSymlink i)) then None else fs p)
      else if p = currentActiveSymlink i \<or> p = currentDataSymlink i
      then Some (Symlink (revString (i_Revision i)))
      else if p = dataDir i then Some Directory
      else fs p)"
  by (simp add: updateCurrentSymlinks_def restoreSymlink_def)

lemma update_generate:
  "updateCurrentSymlinks i (generateWrappers c j ctx fs)
     = (fst (updateCurrentSymlinks i fs), generateWrappers c j ctx (snd (updateCurrentSymlinks i fs)))"
  by (simp add: updateCurrentSymlinks_def restoreSymlink_def)

lemma update_remove:
  "updateCurrentSymlinks i (removeGeneratedWrappers c j ctx fs)
     = (fst (updateCurrentSymlinks i fs), removeGeneratedWrappers c j ctx (snd (updateCurrentSymlinks i fs)))"
  by (simp add: updateCurrentSymlinks_def restoreSymlink_def)

section \<open>Linking twice\<close>

lemma update_idem:
  "updateCurrentSymlinks i (snd (updateCurrentSymlinks i fs))
     = (fst (updateCurrentSymlinks i fs), snd (updateCurrentSymlinks i fs))"
proof (rule prod_eqI)
  show "fst (updateCurrentSymlinks i (snd (updateCurrentSymlinks i fs)))
        = fst (fst (updateCurrentSymlinks i fs), snd (updateCurrentSymlinks i fs))"
    by (simp add: update_fst update_snd dirOrAbsent_def isSymlink_def)
  show "snd (updateCurrentSymlinks i (snd (updateCurrentSymlinks i fs)))
        = snd (fst (updateCurrentSymlinks i fs), snd (updateCurrentSymlinks i fs))"
    by (rule ext) (simp add: update_snd dirOrAbsent_def isSymlink_def)
qed

lemma not_inhibit_path:
  "fst p \<noteq> InhibitDir \<Longrightarrow> p \<noteq> hintFile name \<and> hintFile name \<noteq> p
     \<and> p \<noteq> inhibitInfoFile name hint \<and> inhibitInfoFile name hint \<noteq> p"
  by (auto simp: hintFile_def inhibitInfoFile_def)

lemma hintFile_not_info [simp]:
  "hintFile name \<noteq> inhibitInfoFile name ''refresh''"
  "inhibitInfoFile name ''refresh'' \<noteq> hintFile name"
  by (auto simp: hintFile_def inhibitInfoFile_def)

lemma clearHint_frame [simp]: "fst p \<noteq> InhibitDir \<Longrightarrow> clearHint name fs p = fs p"
  using not_inhibit_path [of p name "''refresh''"]
  by (simp add: clearHint_def split: option.splits)

lemma clearHint_upd [simp]:
  assumes "fst p \<noteq> InhibitDir"
  shows "clearHint name (fs(p := v)) = (clearHint name fs)(p := v)"
proof (rule ext)
  fix q
  from not_inhibit_path [OF assms, of name "''refresh''"]
  show "clearHint name (fs(p := v)) q = ((clearHint name fs)(p := v)) q"
    by (simp add: clearHint_def split: option.splits)
qed

lemma snap_paths_not_inhibit [simp]:
  "fst (dataDir i) \<noteq> InhibitDir"
  "fst (currentDataSymlink i) \<noteq> InhibitDir"
  "fst (currentActiveSymlink i) \<noteq> InhibitDir"
  by (simp_all add: dataDir_def currentDataSymlink_def currentActiveSymlink_def)

lemma clearHint_triv [simp]:
  "fst p \<noteq> InhibitDir \<Longrightarrow> (clearHint name fs)(p := fs p) = clearHint name fs"
  by (rule ext) simp

lemma update_clearHint:
  "updateCurrentSymlinks i (clearHint name fs)
     = (fst (updateCurrentSymlinks i fs), clearHint name (snd (updateCurrentSymlinks i fs)))"
  by (simp add: updateCurrentSymlinks_def restoreSymlink_def)

lemma generate_clearHint:
  "generateWrappers c i ctx (clearHint name fs) = clearHint name (generateWrappers c i ctx fs)"
  by (simp add: clearHint_def split: option.splits)


lemma clearHint_idem: "clearHint name (clearHint name fs) = clearHint name fs"
  by (rule ext) (simp add: clearHint_def split: option.splits)

lemma LinkSnap_value:
  assumes "StateUnlocker ctx \<noteq> None" and "\<not> Unset (i_Revision i)"
  shows "LinkSnap i ctx s =
     (case fst (updateCurrentSymlinks i (Files s)) of
        None \<Rightarrow>
          (None, runinhibit_Unlock (i_InstanceName i)
                   (s\<lparr>Files := generateWrappers (OnClassic s) i ctx
                                   (snd (updateCurrentSymlinks i (Files s)))\<rparr>))
      | Some e \<Rightarrow>
          (Some e, s\<lparr>Files := removeGeneratedWrappers (OnClassic s) i ctx
                                 (generateWrappers (OnClassic s) i ctx
                                    (snd (updateCurrentSymlinks i (Files s))))\<rparr>))"
  using assms by (simp add: LinkSnap_def update_generate split: option.splits)

lemmas link_eval =
  LinkSnap_def UnlinkSnap_def updateCurrentSymlinks_def generateWrappers_def
  removeGeneratedWrappers_def removeCurrentSymlinks_def runinhibit_Unlock_def clearHint_def
  write_files_def remove_files_def generated_def removed_def binaries_def services_def
  serviceUnitPath_def dbusActivationFiles_def desktopFiles_def icons_def snapdUnits_def
  snapdUnitDir_def JoinSnapApp_def dataDir_def currentDataSymlink_def currentActiveSymlink_def
  hintFile_def inhibitInfoFile_def dirOrAbsent_def Unset_def TypeSnapd_def
  hello_ex_def hello_gui_ex_def snapd_ex_def app_ex_def ctx_empty_def ctx_unlocker_def sys_ex_def

text \<open>
  Claim C2. Idempotent do. For every snap, link context and starting state,
  \<^verbatim>\<open>LinkSnap\<close> run a second time on the state the first run left returns what the
  first run returned and leaves the files exactly as the first run left them: the
  same wrappers in the binaries directory, the same unit files and the same
  \<open>current\<close> links of the mount and data directories. Likewise
  \<^verbatim>\<open>LinkComponent\<close> run twice returns the same and leaves the same files, the link
  of the component among them, as run once. (The state unlocker is called once
  more by the second run; it is no part of the files.)
\<close>

theorem link_idempotent:
  "fst (LinkSnap i ctx (snd (LinkSnap i ctx s))) = fst (LinkSnap i ctx s)
   \<and> Files (snd (LinkSnap i ctx (snd (LinkSnap i ctx s)))) = Files (snd (LinkSnap i ctx s))
   \<and> fst (LinkComponent cpi snapRev (snd (LinkComponent cpi snapRev s)))
       = fst (LinkComponent cpi snapRev s)
   \<and> Files (snd (LinkComponent cpi snapRev (snd (LinkComponent cpi snapRev s))))
       = Files (snd (LinkComponent cpi snapRev s))"
proof -
  have linkSnap:
    "fst (LinkSnap i ctx (snd (LinkSnap i ctx s))) = fst (LinkSnap i ctx s)
       \<and> Files (snd (LinkSnap i ctx (snd (LinkSnap i ctx s)))) = Files (snd (LinkSnap i ctx s))"
  proof (cases "StateUnlocker ctx = None \<or> Unset (i_Revision i)")
    case True
    then show ?thesis by (auto simp: LinkSnap_def)
  next
    case False
    then have ok: "StateUnlocker ctx \<noteq> None" "\<not> Unset (i_Revision i)" by simp_all
    let ?c = "OnClassic s"
    let ?u = "updateCurrentSymlinks i (Files s)"
    let ?t = "snd (LinkSnap i ctx s)"
    have again: "updateCurrentSymlinks i (snd ?u) = (fst ?u, snd ?u)"
      by (rule update_idem)
    show ?thesis
    proof (cases "fst ?u")
      case None
      let ?f = "clearHint (i_InstanceName i) (generateWrappers ?c i ctx (snd ?u))"
      have s1: "LinkSnap i ctx s
          = (None, runinhibit_Unlock (i_InstanceName i) (s\<lparr>Files := generateWrappers ?c i ctx (snd ?u)\<rparr>))"
        by (simp add: LinkSnap_value [OF ok] None)
      have t: "Files ?t = ?f" "OnClassic ?t = ?c"
        by (simp_all add: s1 runinhibit_Unlock_def)
      have u2: "updateCurrentSymlinks i ?f = (None, ?f)"
        using None by (simp add: update_clearHint update_generate again)
      have s2: "LinkSnap i ctx ?t
          = (None, runinhibit_Unlock (i_InstanceName i) (?t\<lparr>Files := generateWrappers ?c i ctx ?f\<rparr>))"
        by (simp add: LinkSnap_value [OF ok, of ?t] t u2)
      have "generateWrappers ?c i ctx ?f = ?f"
        by (simp add: generate_clearHint)
      with s2 have "Files (snd (LinkSnap i ctx ?t)) = clearHint (i_InstanceName i) ?f"
        by (simp add: runinhibit_Unlock_def)
      with s2 s1 t show ?thesis by (simp add: clearHint_idem)
    next
      case (Some e)
      let ?f = "removeGeneratedWrappers ?c i ctx (generateWrappers ?c i ctx (snd ?u))"
      have s1: "LinkSnap i ctx s = (Some e, s\<lparr>Files := ?f\<rparr>)"
        by (simp add: LinkSnap_value [OF ok] Some)
      have t: "Files ?t = ?f" "OnClassic ?t = ?c"
        by (simp_all add: s1)
      have u2: "updateCurrentSymlinks i ?f = (Some e, ?f)"
        using Some by (simp add: update_remove update_generate again)
      have s2: "LinkSnap i ctx ?t
          = (Some e, ?t\<lparr>Files := removeGeneratedWrappers ?c i ctx (generateWrappers ?c i ctx ?f)\<rparr>)"
        by (simp add: LinkSnap_value [OF ok, of ?t] t u2)
      have "removeGeneratedWrappers ?c i ctx (generateWrappers ?c i ctx ?f) = ?f"
        by simp
      with s2 have "Files (snd (LinkSnap i ctx ?t)) = ?f" by simp
      with s2 s1 t show ?thesis by simp
    qed
  qed
  have linkComponent:
    "fst (LinkComponent cpi snapRev (snd (LinkComponent cpi snapRev s)))
       = fst (LinkComponent cpi snapRev s)
     \<and> Files (snd (LinkComponent cpi snapRev (snd (LinkComponent cpi snapRev s))))
       = Files (snd (LinkComponent cpi snapRev s))"
    by (simp add: LinkComponent_def)
  from linkSnap linkComponent show ?thesis by blast
qed

lemma hello_ex_linked:
  "fst (LinkSnap hello_ex ctx_unlocker (sys_ex True)) = None"
  by (simp add: link_eval del: generateWrappers_upd removeGeneratedWrappers_upd)

lemma hello_ex_binaries:
  "Files (snd (LinkSnap hello_ex ctx_unlocker (sys_ex True))) (SnapBinariesDir, n) \<noteq> None
   \<longleftrightarrow> n = ''hello.bin''"
  by (simp add: link_eval)

lemma hello_ex_services:
  "Files (snd (LinkSnap hello_ex ctx_unlocker (sys_ex True))) (SnapServicesDir, n) \<noteq> None
   \<longleftrightarrow> n = ''snap.hello.svc.service''"
  by (simp add: link_eval)

lemma revString_11: "revString 11 = ''11''"
  by (simp add: revString_def natString.simps)

lemma hello_ex_symlinks:
  "Files (snd (LinkSnap hello_ex ctx_unlocker (sys_ex True))) (SnapMountDir ''hello'', ''current'')
     = Some (Symlink ''11'')
   \<and> Files (snd (LinkSnap hello_ex ctx_unlocker (sys_ex True))) (SnapDataDir ''hello'', ''current'')
     = Some (Symlink ''11'')"
  by (simp add: link_eval revString_11)

lemma cpi_ex_linked:
  "fst (LinkComponent cpi_ex 2 (sys_ex True)) = None
   \<and> Files (snd (LinkComponent cpi_ex 2 (sys_ex True))) (SnapComponentsDir ''mysnap'' 2, ''mycomp'')
     = Some (Symlink ''../mnt/mycomp/x2'')"
  by (simp add: LinkComponent_def ComponentLinkPath_def cpi_ex_def sys_ex_def revString_def
      natString.simps)

text \<open>
  The snap and the component of the two idempotence tests, linked twice on a system
  without files: both second calls succeed; the binaries directory holds the one
  wrapper \<open>hello.bin\<close>, the services directory the one unit of the daemon, both
  \<open>current\<close> links name revision 11, and the link of the component names its
  revision.
\<close>

theorem link_idempotent_witness:
  "fst (LinkSnap hello_ex ctx_unlocker (snd (LinkSnap hello_ex ctx_unlocker (sys_ex True)))) = None
   \<and> {n. Files (snd (LinkSnap hello_ex ctx_unlocker
                (snd (LinkSnap hello_ex ctx_unlocker (sys_ex True))))) (SnapBinariesDir, n) \<noteq> None}
       = {''hello.bin''}
   \<and> {n. Files (snd (LinkSnap hello_ex ctx_unlocker
                (snd (LinkSnap hello_ex ctx_unlocker (sys_ex True))))) (SnapServicesDir, n) \<noteq> None}
       = {''snap.hello.svc.service''}
   \<and> Files (snd (LinkSnap hello_ex ctx_unlocker
                (snd (LinkSnap hello_ex ctx_unlocker (sys_ex True)))))
         (SnapMountDir ''hello'', ''current'') = Some (Symlink ''11'')
   \<and> Files (snd (LinkSnap hello_ex ctx_unlocker
                (snd (LinkSnap hello_ex ctx_unlocker (sys_ex True)))))
         (SnapDataDir ''hello'', ''current'') = Some (Symlink ''11'')
   \<and> fst (LinkComponent cpi_ex 2 (snd (LinkComponent cpi_ex 2 (sys_ex True)))) = None
   \<and> Files (snd (LinkComponent cpi_ex 2 (snd (LinkComponent cpi_ex 2 (sys_ex True)))))
         (SnapComponentsDir ''mysnap'' 2, ''mycomp'') = Some (Symlink ''../mnt/mycomp/x2'')"
  using link_idempotent [of hello_ex ctx_unlocker "sys_ex True" cpi_ex 2]
    hello_ex_linked hello_ex_binaries hello_ex_services hello_ex_symlinks cpi_ex_linked
  by simp

section \<open>Linking and then unlinking\<close>












end
